theory Spec2Isabelle
  imports Complex_Main
begin

section \<open>Python runtime: bytes, text and integers\<close>

text \<open>
  A Python \<open>bytes\<close> object is a list of 8-bit characters; a \<open>str\<close> holding ASCII text is a
  \<open>string\<close>. The three characters the program's text handling turns on are named.
\<close>

type_synonym bytes = "char list"

abbreviation backslash :: char where "backslash \<equiv> CHR 0x5C"
abbreviation newline :: char where "newline \<equiv> CHR 0x0A"
abbreviation squote :: char where "squote \<equiv> CHR 0x27"
abbreviation dquote :: char where "dquote \<equiv> CHR 0x22"

definition hexdigit :: "nat \<Rightarrow> char" where
  "hexdigit n = ''0123456789abcdef'' ! n"

text \<open>
  \<open>repr\<close> of one byte inside a bytes literal delimited by \<open>quote\<close>, in the case order of
  the interpreter: the quote and the backslash are escaped, then tab, line feed and carriage
  return get their letter, other bytes outside the printable ASCII range are written
  \<open>\xhh\<close>, and the rest stand for themselves.
\<close>

definition repr_byte :: "char \<Rightarrow> char \<Rightarrow> string" where
  "repr_byte quote c =
     (if c = quote \<or> c = backslash then [backslash, c]
      else if c = CHR 0x09 then [backslash, CHR ''t'']
      else if c = newline then [backslash, CHR ''n'']
      else if c = CHR 0x0D then [backslash, CHR ''r'']
      else if (of_char c :: nat) < 32 \<or> 127 \<le> (of_char c :: nat)
        then [backslash, CHR ''x'', hexdigit ((of_char c :: nat) div 16),
              hexdigit ((of_char c :: nat) mod 16)]
      else [c])"

text \<open>
  The delimiter of a bytes \<open>repr\<close>: a single quote, unless the bytes hold a single quote
  and no double quote.
\<close>

definition repr_quote :: "bytes \<Rightarrow> char" where
  "repr_quote bs = (if squote \<in> set bs \<and> dquote \<notin> set bs then dquote else squote)"

definition repr_body :: "char \<Rightarrow> bytes \<Rightarrow> string" where
  "repr_body quote bs = concat (map (repr_byte quote) bs)"

definition bytes_repr :: "bytes \<Rightarrow> string" where
  "bytes_repr bs =
     (let quote = repr_quote bs in CHR ''b'' # quote # repr_body quote bs @ [quote])"

text \<open>
  \<open>str(x)\<close> for the two values \<open>communicate()\<close> hands back: \<open>None\<close> for a stream that
  was not piped, the bytes read otherwise.
\<close>

fun py_str :: "bytes option \<Rightarrow> string" where
  "py_str None = ''None''"
| "py_str (Some bs) = bytes_repr bs"

text \<open>
  \<open>s.replace(old, new)\<close>: the occurrences of \<open>old\<close> are found from the left and do not
  overlap. With an empty \<open>old\<close>, \<open>new\<close> is put before every character and at the end.
\<close>

function str_replace :: "string \<Rightarrow> string \<Rightarrow> string \<Rightarrow> string" where
  "str_replace old new s =
     (if old = [] then new @ concat (map (\<lambda>c. c # new) s)
      else if s = [] then []
      else if take (length old) s = old then new @ str_replace old new (drop (length old) s)
      else hd s # str_replace old new (tl s))"
  by pat_completeness auto
termination
  by (relation "measure (\<lambda>(old, new, s). length s)") (auto simp: Suc_le_eq)

declare str_replace.simps [simp del]

text \<open>The call \<open>.replace("\\n", "\n")\<close> of \<open>esbmc\<close>.\<close>

abbreviation unescape :: "string \<Rightarrow> string" where
  "unescape \<equiv> str_replace [backslash, CHR ''n''] [newline]"

text \<open>\<open>str(n)\<close> for an integer: decimal digits, with a minus sign below zero.\<close>

fun str_nat :: "nat \<Rightarrow> string" where
  "str_nat n =
     (if n < 10 then [char_of (48 + n)] else str_nat (n div 10) @ [char_of (48 + n mod 10)])"

declare str_nat.simps [simp del]

definition str_int :: "int \<Rightarrow> string" where
  "str_int i = (if i < 0 then CHR ''-'' # str_nat (nat (- i)) else str_nat (nat i))"

section \<open>What a run does: events, exceptions and exits\<close>

datatype exn = OSError string | EOFError | APIError string

datatype outcome = Exit int | Uncaught exn

datatype event =
    Print string
  | Input string
  | AnimStart string
  | AnimStop
  | Popen "string list"
  | SetApiKey string
  | SendMessage string

text \<open>
  A computation lists the events it caused and either stopped the process (\<open>Inl\<close>: a call of
  \<open>exit\<close> or an exception nobody catches) or returned a value (\<open>Inr\<close>).
\<close>

type_synonym 'a comp = "event list \<times> (outcome + 'a)"

definition ret :: "'a \<Rightarrow> 'a comp" where
  "ret x = ([], Inr x)"

definition emit :: "event \<Rightarrow> unit comp" where
  "emit e = ([e], Inr ())"

definition raise :: "exn \<Rightarrow> 'a comp" where
  "raise e = ([], Inl (Uncaught e))"

definition exit :: "int \<Rightarrow> 'a comp" where
  "exit code = ([], Inl (Exit code))"

definition bind :: "'a comp \<Rightarrow> ('a \<Rightarrow> 'b comp) \<Rightarrow> 'b comp" where
  "bind m f =
     (case m of
        (t, Inl stop) \<Rightarrow> (t, Inl stop)
      | (t, Inr x) \<Rightarrow> (case f x of (t', r) \<Rightarrow> (t @ t', r)))"

definition seq :: "unit comp \<Rightarrow> 'b comp \<Rightarrow> 'b comp" where
  "seq m k = bind m (\<lambda>_. k)"

definition print :: "string \<Rightarrow> unit comp" where
  "print m = emit (Print m)"

section \<open>Data of the program\<close>

record message =
  role :: string
  content :: string

text \<open>
  \<open>config.cfg_sys_msg\<close> is compared with the empty string and otherwise used as a list of
  messages: \<open>NoSysMsg\<close> is the empty string.
\<close>

datatype sys_msg_setting = NoSysMsg | SysMsgs "message list"

record args =
  filename :: string
  remaining :: "string list"
  arg_verbose :: bool
  raw_output :: bool
  arg_ai_model :: string

text \<open>The globals of the module \<open>config\<close> that \<open>main.py\<close> reads.\<close>

record config =
  esbmc_path :: string
  esbmc_params :: "string list"
  verbose :: bool
  raw_responses :: bool
  ai_model :: string
  chat_temperature :: real
  openai_api_key :: string
  cfg_sys_msg :: sys_msg_setting
  cfg_initial_prompt :: string

text \<open>
  The reply of \<open>send_message\<close>, with the fields \<open>print_assistant_response\<close> reads;
  \<open>resp_text\<close> is what \<open>print(response)\<close> shows.
\<close>

record response =
  resp_role :: string
  resp_content :: string
  total_tokens :: int
  finish_reason :: string
  resp_text :: string

text \<open>What the child process did: its exit status and what it wrote to its two streams.\<close>

record process =
  returncode :: int
  stdout_bytes :: bytes
  stderr_bytes :: bytes

text \<open>
  The class \<open>ChatInterface\<close> of \<open>src.chat\<close> is used through its constructor, the method
  \<open>send_message\<close> and the attributes \<open>max_tokens\<close> and \<open>model_name\<close>; \<open>'c\<close> is the state
  of such an object. \<open>send_message\<close> returns the state it leaves behind together with the
  reply or the exception it raised.
\<close>

record 'c chat_api =
  new_chat :: "message list \<Rightarrow> string \<Rightarrow> real \<Rightarrow> 'c"
  send_message :: "'c \<Rightarrow> string \<Rightarrow> 'c \<times> (exn + response)"
  max_tokens :: "'c \<Rightarrow> int"
  model_name :: "'c \<Rightarrow> string"

text \<open>
  Everything outside \<open>main.py\<close> that a run depends on: the file system, the child process,
  the operator, and the modules \<open>src.config\<close>, \<open>src.chat\<close> and \<open>src.loading_widget\<close>, which
  are not among the sources and are taken as they are given. \<open>loaded_config\<close> is the state
  of the module \<open>config\<close> after \<open>load_envs\<close>, \<open>load_args\<close> and \<open>init_ai_data\<close> have
  returned; \<open>default_esbmc_params\<close> is the list that the parameter \<open>esbmc_params\<close> of
  \<open>esbmc\<close> got as its default when the function was defined; \<open>system_msg_default\<close> is
  \<open>SYSTEM_MSG_DEFAULT\<close>; \<open>str_list\<close> is \<open>str\<close> of a list of strings; \<open>stdin\<close> holds the
  lines the operator types, after which \<open>input\<close> raises \<open>EOFError\<close>. The calls of
  \<open>anim.start\<close> and \<open>anim.stop\<close> are the events \<open>AnimStart\<close> and \<open>AnimStop\<close>.
\<close>

record 'c world =
  path_exists :: "string \<Rightarrow> bool"
  read_file :: "string \<Rightarrow> exn + string"
  run_process :: "string list \<Rightarrow> exn + process"
  loaded_config :: "args \<Rightarrow> config"
  default_esbmc_params :: "string list"
  system_msg_default :: "message list"
  str_list :: "string list \<Rightarrow> string"
  chat :: "'c chat_api"
  stdin :: "string list"

section \<open>The functions of \<open>main.py\<close>\<close>

definition DEFAULT_PROMPT :: string where
  "DEFAULT_PROMPT = ''Walk me through the source code, while also explaining the output of ESBMC at the relevant parts. You shall not start the reply with an acknowledgement message such as '' @ [squote] @ ''Certainly'' @ [squote] @ ''.''"

definition print_help :: "unit comp" where
  "print_help =
     seq (print '''')
    (seq (print ''Commands:'')
    (seq (print ''/help: Print this help message.'')
    (seq (print ''/exit: Exit the program.'')
         (print ''''))))"

text \<open>
  The local function \<open>printv\<close> of \<open>init_check_health\<close>: it prints when the verbose flag
  it was given is set.
\<close>

definition printv :: "bool \<Rightarrow> string \<Rightarrow> unit comp" where
  "printv vb m = (if vb then print m else ret ())"

text \<open>
  Modelled from the spec: the function \<open>printv\<close> of \<open>src.config\<close>, which is not among the
  sources. Output is verbose when the verbose setting is on: the message is printed when
  \<open>config.verbose\<close> is set.
\<close>

definition config_printv :: "config \<Rightarrow> string \<Rightarrow> unit comp" where
  "config_printv cfg m = printv (verbose cfg) m"

definition init_check_health :: "('c, 'z) world_scheme \<Rightarrow> bool \<Rightarrow> unit comp" where
  "init_check_health w vb =
     seq (printv vb ''Performing init health check...'')
       (if path_exists w ''.env'' then printv vb ''Environment file has been located''
        else seq (print ''Error: .env file is not found in project directory'') (exit 3))"

definition check_health :: "('c, 'z) world_scheme \<Rightarrow> config \<Rightarrow> unit comp" where
  "check_health w cfg =
     seq (config_printv cfg ''Performing health check...'')
       (if path_exists w (esbmc_path cfg) then config_printv cfg ''ESBMC has been located''
        else seq (print (''Error: ESBMC could not be found in '' @ esbmc_path cfg)) (exit 3))"

definition get_src :: "('c, 'z) world_scheme \<Rightarrow> string \<Rightarrow> string comp" where
  "get_src w path = (case read_file w path of Inl e \<Rightarrow> raise e | Inr text \<Rightarrow> ret text)"

text \<open>
  \<open>Popen(cmd, stdout=..., stderr=...)\<close> followed by \<open>communicate()\<close>: a stream is handed
  back only if it was piped.
\<close>

definition communicate :: "bool \<Rightarrow> bool \<Rightarrow> process \<Rightarrow> bytes option \<times> bytes option" where
  "communicate stdout_piped stderr_piped p =
     (if stdout_piped then Some (stdout_bytes p) else None,
      if stderr_piped then Some (stderr_bytes p) else None)"

definition esbmc_cmd :: "config \<Rightarrow> string \<Rightarrow> string list \<Rightarrow> string list" where
  "esbmc_cmd cfg path params = [esbmc_path cfg] @ params @ [path]"

definition esbmc ::
  "('c, 'z) world_scheme \<Rightarrow> config \<Rightarrow> string \<Rightarrow> string list \<Rightarrow> (int \<times> string \<times> string) comp" where
  "esbmc w cfg path params =
     (let cmd = esbmc_cmd cfg path params in
      seq (emit (Popen cmd))
        (case run_process w cmd of
           Inl e \<Rightarrow> raise e
         | Inr p \<Rightarrow>
             (let (output_bytes, err_bytes) = communicate True False p;
                  output = unescape (py_str output_bytes);
                  err = unescape (py_str err_bytes)
              in ret (returncode p, output, err))))"

definition print_assistant_response ::
  "config \<Rightarrow> 'c chat_api \<Rightarrow> 'c \<Rightarrow> response \<Rightarrow> unit comp" where
  "print_assistant_response cfg api c r =
     (if raw_responses cfg then print (resp_text r)
      else
        seq (if verbose cfg
             then print (''stats: total tokens: '' @ str_int (total_tokens r)
                          @ '', max tokens: '' @ str_int (max_tokens api c)
                          @ '' finish reason: '' @ finish_reason r @ [newline])
             else ret ())
          (print (resp_role r @ '': '' @ resp_content r @ [newline])))"

definition build_system_messages ::
  "('c, 'z) world_scheme \<Rightarrow> config \<Rightarrow> string \<Rightarrow> string \<Rightarrow> message list comp" where
  "build_system_messages w cfg source_code esbmc_output =
     seq (config_printv cfg ''Loading system messages'')
       (let system_messages = [];
            system_messages =
              (if cfg_sys_msg cfg \<noteq> NoSysMsg
               then system_messages @ (case cfg_sys_msg cfg of SysMsgs ms \<Rightarrow> ms | NoSysMsg \<Rightarrow> [])
               else system_messages @ system_msg_default w);
            system_messages = system_messages @
              [\<lparr>role = ''system'',
                content = ''Reply OK if you understand that the following text is the program source code: ''
                          @ source_code\<rparr>,
               \<lparr>role = ''assistant'', content = ''OK''\<rparr>,
               \<lparr>role = ''system'',
                content = ''Reply OK if you understand that the following text is the output from ESBMC after reading the program source code: ''
                          @ esbmc_output\<rparr>,
               \<lparr>role = ''assistant'', content = ''OK''\<rparr>]
        in ret system_messages)"

text \<open>
  A call of \<open>chat.send_message\<close> between \<open>anim.start\<close> and \<open>anim.stop\<close>, as \<open>main\<close> writes it
  three times: when the call raises, the exception leaves \<open>main\<close> at once.
\<close>

definition send_with_anim ::
  "'c chat_api \<Rightarrow> string \<Rightarrow> 'c \<Rightarrow> string \<Rightarrow> event list \<times> 'c \<times> (exn + response)" where
  "send_with_anim api caption c text =
     (case send_message api c text of
        (c', Inl e) \<Rightarrow> ([AnimStart caption, SendMessage text], c', Inl e)
      | (c', Inr r) \<Rightarrow> ([AnimStart caption, SendMessage text, AnimStop], c', Inr r))"

text \<open>
  The loop \<open>while True\<close>: one turn for each line of the operator. The result is the events,
  how the process ended and the state of the chat object then.
\<close>

fun loop ::
  "config \<Rightarrow> 'c chat_api \<Rightarrow> 'c \<Rightarrow> string list \<Rightarrow> event list \<times> outcome \<times> 'c" where
  "loop cfg api c [] = ([Input ''>: ''], Uncaught EOFError, c)"
| "loop cfg api c (user_message # rest) =
     (if user_message = ''/exit'' then ([Input ''>: '', Print ''exiting...''], Exit 0, c)
      else if user_message = ''/help'' then
        (case loop cfg api c rest of
           (t, r) \<Rightarrow> (Input ''>: '' # fst print_help @ t, r))
      else if user_message = '''' then
        (case loop cfg api c rest of (t, r) \<Rightarrow> (Input ''>: '' # t, r))
      else
        (case send_with_anim api ''Generating response... Please Wait'' c user_message of
           (t1, c', Inl e) \<Rightarrow> (Input ''>: '' # Print '''' # t1, Uncaught e, c')
         | (t1, c', Inr response) \<Rightarrow>
             (case loop cfg api c' rest of
                (t, r) \<Rightarrow>
                  (Input ''>: '' # Print '''' # t1
                     @ fst (print_assistant_response cfg api c' response) @ t, r))))"

text \<open>The part of \<open>main\<close> after the exit code of the verifier was found to be 1.\<close>

definition llm_phase ::
  "('c, 'z) world_scheme \<Rightarrow> config \<Rightarrow> string \<Rightarrow> string \<Rightarrow> event list \<times> outcome \<times> 'c option" where
  "llm_phase w cfg source_code esbmc_output =
     (let t0 = fst (seq (config_printv cfg ''Initializing OpenAI'')
                      (emit (SetApiKey (openai_api_key cfg))));
          (t1, built) = build_system_messages w cfg source_code esbmc_output;
          system_messages = (case built of Inr ms \<Rightarrow> ms | Inl _ \<Rightarrow> []);
          c = new_chat (chat w) system_messages (ai_model cfg) (chat_temperature cfg);
          t2 = fst (config_printv cfg (''Using AI Model: '' @ model_name (chat w) c));
          t3 = fst (if cfg_initial_prompt cfg \<noteq> []
                    then config_printv cfg (''Using initial prompt from file...'' @ [newline])
                    else config_printv cfg (''Using default initial prompts...'' @ [newline]));
          prompt = (if cfg_initial_prompt cfg \<noteq> [] then cfg_initial_prompt cfg
                    else DEFAULT_PROMPT)
      in case send_with_anim (chat w) ''Model is parsing ESBMC output... Please Wait'' c prompt of
           (t4, c', Inl e) \<Rightarrow> (t0 @ t1 @ t2 @ t3 @ t4, Uncaught e, Some c')
         | (t4, c', Inr response) \<Rightarrow>
             (case loop cfg (chat w) c' (stdin w) of
                (t, r, c'') \<Rightarrow>
                  (t0 @ t1 @ t2 @ t3 @ t4
                     @ fst (print_assistant_response cfg (chat w) c' response) @ t,
                   r, Some c'')))"

text \<open>
  \<open>main\<close>, from the banner on (the arguments are parsed). The result is the events of the
  run, how the process ended, and the chat object if one was made.
\<close>

definition startup ::
  "('c, 'z) world_scheme \<Rightarrow> args \<Rightarrow> (config \<times> string \<times> int \<times> string \<times> string) comp" where
  "startup w args =
     seq (print ''ESBMC-AI'')
    (seq (print '''')
    (seq (init_check_health w (arg_verbose args))
       (let cfg = loaded_config w args in
        seq (check_health w cfg)
       (seq (config_printv cfg ''Reading source code...'')
       (seq (config_printv cfg (''Running ESBMC with '' @ str_list w (esbmc_params cfg)))
       (bind (get_src w (filename args)) (\<lambda>source_code.
        seq (emit (AnimStart ''ESBMC is processing... Please Wait''))
       (bind (esbmc w cfg (filename args) (default_esbmc_params w))
          (\<lambda>(exit_code, esbmc_output, esbmc_err).
        seq (emit AnimStop)
            (ret (cfg, source_code, exit_code, esbmc_output, esbmc_err)))))))))))"

definition main :: "('c, 'z) world_scheme \<Rightarrow> args \<Rightarrow> event list \<times> outcome \<times> 'c option" where
  "main w args =
     (case startup w args of
        (t, Inl stop) \<Rightarrow> (t, stop, None)
      | (t, Inr (cfg, source_code, exit_code, esbmc_output, esbmc_err)) \<Rightarrow>
          if exit_code = 0
          then (t @ [Print ''Success!'', Print esbmc_output], Exit 0, None)
          else if exit_code \<noteq> 1
          then (t @ [Print (''ESBMC exit code: '' @ str_int exit_code)], Exit 1, None)
          else (case llm_phase w cfg source_code esbmc_output of
                  (t', r) \<Rightarrow> (t @ t', r)))"

section \<open>Observations on a run\<close>

fun is_print :: "event \<Rightarrow> bool" where
  "is_print (Print m) = True"
| "is_print e = False"

text \<open>The messages handed to \<open>send_message\<close> and the commands handed to \<open>Popen\<close>, in order.\<close>

fun backend_calls :: "event list \<Rightarrow> string list" where
  "backend_calls [] = []"
| "backend_calls (SendMessage m # t) = m # backend_calls t"
| "backend_calls (e # t) = backend_calls t"

fun verifier_calls :: "event list \<Rightarrow> string list list" where
  "verifier_calls [] = []"
| "verifier_calls (Popen cmd # t) = cmd # verifier_calls t"
| "verifier_calls (e # t) = verifier_calls t"

text \<open>
  Whether the indicator is running after the events \<open>t\<close>, when \<open>b\<close> says whether it was
  running before; the calls around which \<open>main\<close> runs it; the two lines on which the loop
  does nothing.
\<close>

fun anim_running :: "bool \<Rightarrow> event list \<Rightarrow> bool" where
  "anim_running b [] = b"
| "anim_running b (AnimStart m # t) = anim_running True t"
| "anim_running b (AnimStop # t) = anim_running False t"
| "anim_running b (e # t) = anim_running b t"

fun is_call :: "event \<Rightarrow> bool" where
  "is_call (Popen cmd) = True"
| "is_call (SendMessage m) = True"
| "is_call e = False"

definition ends_in_call :: "event list \<Rightarrow> bool" where
  "ends_in_call t = (t \<noteq> [] \<and> is_call (last t))"

definition is_noop :: "string \<Rightarrow> bool" where
  "is_noop line = (line = [] \<or> line = ''/help'')"

text \<open>The integer that a text of decimal digits, with or without a minus sign, stands for.\<close>

definition decimal_nat :: "string \<Rightarrow> nat" where
  "decimal_nat ds = foldl (\<lambda>a c. 10 * a + (of_char c - 48)) 0 ds"

fun decimal_value :: "string \<Rightarrow> int" where
  "decimal_value [] = 0"
| "decimal_value (c # ds) =
     (if c = CHR ''-'' then - int (decimal_nat ds) else int (decimal_nat (c # ds)))"

text \<open>
  The chat object after the loop has gone through the lines \<open>before\<close>, when none of them is
  \<open>/exit\<close> and no call of \<open>send_message\<close> for them raises.
\<close>

fun session_after :: "'c chat_api \<Rightarrow> 'c \<Rightarrow> string list \<Rightarrow> 'c option" where
  "session_after api c [] = Some c"
| "session_after api c (line # rest) =
     (if line = ''/exit'' then None
      else if line = ''/help'' \<or> line = [] then session_after api c rest
      else (case send_message api c line of
              (c', Inl e) \<Rightarrow> None
            | (c', Inr r) \<Rightarrow> session_after api c' rest))"

section \<open>Sample surroundings\<close>

text \<open>
  Modelled from the spec: the class \<open>ChatInterface\<close> of \<open>src.chat\<close>, which is not among the
  sources. The object holds the message history; \<open>send_message\<close> appends the user's text,
  sends the whole history to the backend, and on a reply appends its text as an assistant
  message; when the backend call raises, the exception is passed on.
\<close>

definition spec_chat :: "(message list \<Rightarrow> exn + response) \<Rightarrow> message list chat_api" where
  "spec_chat backend =
     \<lparr>new_chat = (\<lambda>system_messages model temperature. system_messages),
      send_message = (\<lambda>history text.
        (let sent = history @ [\<lparr>role = ''user'', content = text\<rparr>] in
         case backend sent of
           Inl e \<Rightarrow> (sent, Inl e)
         | Inr r \<Rightarrow> (sent @ [\<lparr>role = ''assistant'', content = resp_content r\<rparr>], Inr r))),
      max_tokens = (\<lambda>_. 4096),
      model_name = (\<lambda>_. ''gpt-3.5-turbo'')\<rparr>"

definition sample_reply :: response where
  "sample_reply =
     \<lparr>resp_role = ''assistant'', resp_content = ''The loop overflows.'', total_tokens = 120,
      finish_reason = ''stop'', resp_text = ''{}''\<rparr>"

definition sample_config :: config where
  "sample_config =
     \<lparr>esbmc_path = ''./esbmc'', esbmc_params = [''--k-induction''], verbose = False,
      raw_responses = False, ai_model = ''gpt-3.5-turbo'', chat_temperature = 1,
      openai_api_key = ''sk'', cfg_sys_msg = NoSysMsg, cfg_initial_prompt = []\<rparr>"

definition sample_args :: args where
  "sample_args =
     \<lparr>filename = ''a.c'', remaining = [''--overflow-check''], arg_verbose = False,
      raw_output = False, arg_ai_model = []\<rparr>"

definition sample_persona :: "message list" where
  "sample_persona = [\<lparr>role = ''system'', content = ''You are a code assistant.''\<rparr>]"

definition sample_process :: "int \<Rightarrow> process" where
  "sample_process code =
     \<lparr>returncode = code, stdout_bytes = ''VERIFICATION FAILED'' @ [newline],
      stderr_bytes = ''warning''\<rparr>"

text \<open>
  A machine on which the files named \<open>present\<close> exist, the source file reads as
  \<open>int main() {}\<close>, the verifier behaves as \<open>verifier\<close> says, the backend behaves as
  \<open>backend\<close> says, and the operator types \<open>lines\<close>.
\<close>

definition sample_world ::
  "string list \<Rightarrow> exn + process \<Rightarrow> (message list \<Rightarrow> exn + response) \<Rightarrow> string list
     \<Rightarrow> message list world" where
  "sample_world present verifier backend lines =
     \<lparr>path_exists = (\<lambda>path. path \<in> set present),
      read_file = (\<lambda>_. Inr ''int main() {}''),
      run_process = (\<lambda>_. verifier),
      loaded_config = (\<lambda>_. sample_config),
      default_esbmc_params = [''--k-induction''],
      system_msg_default = sample_persona,
      str_list = concat,
      chat = spec_chat backend,
      stdin = lines\<rparr>"

text \<open>Verifiers whose output holds a single quote, a backslash before \<open>n\<close>, and a tab.\<close>

definition quoting_process :: process where
  "quoting_process =
     \<lparr>returncode = 1, stdout_bytes = ''it'' @ [squote] @ ''s'', stderr_bytes = []\<rparr>"

definition backslash_process :: process where
  "backslash_process =
     \<lparr>returncode = 1, stdout_bytes = [backslash, CHR ''n''], stderr_bytes = []\<rparr>"

definition tab_process :: process where
  "tab_process =
     \<lparr>returncode = 1, stdout_bytes = [CHR ''a'', CHR 0x09, CHR ''b''], stderr_bytes = []\<rparr>"

text \<open>
  A verifier that finds nothing, one whose output holds a backslash before \<open>b\<close>, and a
  backend that fails on the question \<open>why?\<close>.
\<close>

definition successful_process :: process where
  "successful_process =
     \<lparr>returncode = 0, stdout_bytes = ''VERIFICATION SUCCESSFUL'', stderr_bytes = []\<rparr>"

definition backslash_b_process :: process where
  "backslash_b_process =
     \<lparr>returncode = 1, stdout_bytes = [CHR ''a'', backslash, CHR ''b''], stderr_bytes = []\<rparr>"

definition failing_backend :: "message list \<Rightarrow> exn + response" where
  "failing_backend history =
     (if content (last history) = ''why?'' then Inl (APIError ''quota'') else Inr sample_reply)"

section \<open>Properties\<close>

declare config_printv_def [simp]

lemmas comp_defs = bind_def seq_def emit_def print_def ret_def exit_def raise_def printv_def

lemmas sample_defs = sample_world_def sample_config_def sample_args_def sample_process_def
  sample_persona_def sample_reply_def spec_chat_def

lemma backend_calls_append: "backend_calls (t @ t') = backend_calls t @ backend_calls t'"
  by (induction t rule: backend_calls.induct) simp_all

lemma verifier_calls_append: "verifier_calls (t @ t') = verifier_calls t @ verifier_calls t'"
  by (induction t rule: verifier_calls.induct) simp_all

subsection \<open>The seed transcript\<close>

text \<open>
  C5. For all texts \<open>source_code\<close> and \<open>esbmc_output\<close>, \<open>build_system_messages\<close> returns the
  configured system messages when some are configured, and the built-in default messages
  otherwise, followed by the system message that embeds the source code, an assistant
  message \<open>OK\<close>, the system message that embeds the verifier output, and an assistant
  message \<open>OK\<close>, in this order.
\<close>

theorem build_system_messages_order:
  "snd (build_system_messages w (cfg\<lparr>cfg_sys_msg := SysMsgs override\<rparr>) source_code esbmc_output)
     = Inr (override @
         [\<lparr>role = ''system'',
           content = ''Reply OK if you understand that the following text is the program source code: ''
                     @ source_code\<rparr>,
          \<lparr>role = ''assistant'', content = ''OK''\<rparr>,
          \<lparr>role = ''system'',
           content = ''Reply OK if you understand that the following text is the output from ESBMC after reading the program source code: ''
                     @ esbmc_output\<rparr>,
          \<lparr>role = ''assistant'', content = ''OK''\<rparr>])
   \<and> snd (build_system_messages w (cfg\<lparr>cfg_sys_msg := NoSysMsg\<rparr>) source_code esbmc_output)
     = Inr (system_msg_default w @
         [\<lparr>role = ''system'',
           content = ''Reply OK if you understand that the following text is the program source code: ''
                     @ source_code\<rparr>,
          \<lparr>role = ''assistant'', content = ''OK''\<rparr>,
          \<lparr>role = ''system'',
           content = ''Reply OK if you understand that the following text is the output from ESBMC after reading the program source code: ''
                     @ esbmc_output\<rparr>,
          \<lparr>role = ''assistant'', content = ''OK''\<rparr>])"
  by (simp add: build_system_messages_def comp_defs)

subsection \<open>Health checks\<close>

lemma startup_env_missing:
  assumes "\<not> path_exists w ''.env''"
  shows "startup w args =
     ([Print ''ESBMC-AI'', Print []]
        @ fst (printv (arg_verbose args) ''Performing init health check...'')
        @ [Print ''Error: .env file is not found in project directory''], Inl (Exit 3))"
  using assms by (simp add: startup_def init_check_health_def comp_defs)

lemma startup_esbmc_missing:
  assumes "path_exists w ''.env''" "\<not> path_exists w (esbmc_path (loaded_config w args))"
  shows "startup w args =
     ([Print ''ESBMC-AI'', Print []]
        @ fst (printv (arg_verbose args) ''Performing init health check...'')
        @ fst (printv (arg_verbose args) ''Environment file has been located'')
        @ fst (printv (verbose (loaded_config w args)) ''Performing health check...'')
        @ [Print (''Error: ESBMC could not be found in '' @ esbmc_path (loaded_config w args))],
      Inl (Exit 3))"
  using assms by (simp add: startup_def init_check_health_def check_health_def comp_defs Let_def)

text \<open>
  C7. When the file \<open>.env\<close> is missing, or the verifier is not found at the configured
  path, the run ends with status 3; the last thing it does is to print the diagnostic for
  the missing file, and all it did before was printing: the verifier was not started and
  the backend was not called.
\<close>

theorem startup_precondition_failure:
  assumes "\<not> path_exists w ''.env'' \<or> \<not> path_exists w (esbmc_path (loaded_config w args))"
  shows "snd (main w args) = (Exit 3, None)
    \<and> last (fst (main w args)) =
        Print (if \<not> path_exists w ''.env''
               then ''Error: .env file is not found in project directory''
               else ''Error: ESBMC could not be found in '' @ esbmc_path (loaded_config w args))
    \<and> list_all is_print (fst (main w args))
    \<and> verifier_calls (fst (main w args)) = []
    \<and> backend_calls (fst (main w args)) = []"
proof (cases "path_exists w ''.env''")
  case False
  show ?thesis
    by (simp add: main_def startup_env_missing [OF False] False comp_defs)
next
  case True
  with assms have miss: "\<not> path_exists w (esbmc_path (loaded_config w args))" by simp
  show ?thesis
    by (simp add: main_def startup_esbmc_missing [OF True miss] True comp_defs)
qed

theorem startup_precondition_failure_witness:
  "\<not> path_exists (sample_world [''.env''] (Inr (sample_process 1)) (\<lambda>_. Inr sample_reply) [])
       (esbmc_path (loaded_config
          (sample_world [''.env''] (Inr (sample_process 1)) (\<lambda>_. Inr sample_reply) [])
          sample_args))
   \<and> snd (main (sample_world [''.env''] (Inr (sample_process 1)) (\<lambda>_. Inr sample_reply) [])
        sample_args) = (Exit 3, None)
   \<and> last (fst (main (sample_world [''.env''] (Inr (sample_process 1)) (\<lambda>_. Inr sample_reply) [])
        sample_args)) = Print ''Error: ESBMC could not be found in ./esbmc''"
proof -
  let ?w = "sample_world [''.env''] (Inr (sample_process 1)) (\<lambda>_. Inr sample_reply) []"
  have missing: "\<not> path_exists ?w (esbmc_path (loaded_config ?w sample_args))"
    by (simp add: sample_defs)
  then have h: "\<not> path_exists ?w ''.env''
      \<or> \<not> path_exists ?w (esbmc_path (loaded_config ?w sample_args))"
    by simp
  have present: "path_exists ?w ''.env''"
    by (simp add: sample_defs)
  have path: "esbmc_path (loaded_config ?w sample_args) = ''./esbmc''"
    by (simp add: sample_defs)
  show ?thesis
    using missing present path startup_precondition_failure [OF h] by simp
qed

subsection \<open>Text of the verifier\<close>

lemma unescape_Nil: "unescape [] = []"
  by (simp add: str_replace.simps)

lemma unescape_single: "unescape [c] = [c]"
  by (simp add: str_replace.simps [of _ _ "[c]"] str_replace.simps [of _ _ "[]"])

lemma unescape_Cons2:
  "unescape (a # b # s) =
     (if a = backslash \<and> b = CHR ''n'' then newline # unescape s else a # unescape (b # s))"
  by (subst str_replace.simps) simp

lemmas unescape_simps = unescape_Nil unescape_single unescape_Cons2

lemma unescape_None: "unescape ''None'' = ''None''"
  by (simp add: unescape_simps)

lemma unescape_Cons_other: "c \<noteq> backslash \<Longrightarrow> unescape (c # s) = c # unescape s"
  by (cases s) (simp_all add: unescape_simps)

lemma unescape_append_backslash:
  "unescape (a @ backslash # x) = unescape a @ unescape (backslash # x)"
  by (induction a rule: induct_list012) (simp_all add: unescape_simps)

lemma unescape_occurrence:
  "unescape (a @ backslash # CHR ''n'' # b) = unescape a @ newline # unescape b"
  by (simp add: unescape_append_backslash unescape_simps)

lemma unescape_head: "unescape (y # zs) = c # r \<Longrightarrow> c = newline \<or> c = y"
  by (cases zs) (auto simp: unescape_simps split: if_splits)

lemma unescape_no_occurrence: "unescape s \<noteq> a @ backslash # CHR ''n'' # b"
proof (induction s arbitrary: a rule: induct_list012)
  case 1
  then show ?case by (simp add: unescape_simps)
next
  case (2 x)
  then show ?case by (cases a) (simp_all add: unescape_simps)
next
  case (3 x y zs)
  show ?case
  proof (cases "x = backslash \<and> y = CHR ''n''")
    case True
    then show ?thesis using 3(1) by (cases a) (simp_all add: unescape_simps)
  next
    case False
    show ?thesis
    proof (cases a)
      case Nil
      show ?thesis
      proof
        assume "unescape (x # y # zs) = a @ backslash # CHR ''n'' # b"
        with False Nil have "x = backslash" and "unescape (y # zs) = CHR ''n'' # b"
          by (auto simp: unescape_simps split: if_splits)
        with unescape_head [of y zs "CHR ''n''" b] False show False by simp
      qed
    next
      case (Cons a0 a')
      then show ?thesis using False 3(2) [of a'] by (auto simp: unescape_simps)
    qed
  qed
qed

lemma unescape_id:
  "(\<And>a b. s \<noteq> a @ backslash # CHR ''n'' # b) \<Longrightarrow> unescape s = s"
proof (induction s rule: induct_list012)
  case 1
  then show ?case by (simp add: unescape_simps)
next
  case (2 x)
  then show ?case by (simp add: unescape_simps)
next
  case (3 x y zs)
  from 3(3) [of "[]" zs] have no: "\<not> (x = backslash \<and> y = CHR ''n'')" by simp
  have "unescape (y # zs) = y # zs"
  proof (rule 3(2))
    fix a b show "y # zs \<noteq> a @ backslash # CHR ''n'' # b"
      using 3(3) [of "x # a" b] by simp
  qed
  with no show ?case by (simp add: unescape_simps)
qed

lemma unescape_snoc: "c \<noteq> CHR ''n'' \<Longrightarrow> unescape (s @ [c]) = unescape s @ [c]"
  by (induction s rule: induct_list012) (simp_all add: unescape_simps)


lemma unescape_plain_prefix:
  "backslash \<notin> set r \<Longrightarrow> unescape (r @ s) = r @ unescape s"
  by (induction r) (auto simp: unescape_Cons_other)

lemma hexdigit_plain: "n < 16 \<Longrightarrow> hexdigit n \<noteq> backslash"
proof -
  assume "n < 16"
  then have "n < length ''0123456789abcdef''"
    by simp
  then have "hexdigit n \<in> set ''0123456789abcdef''"
    unfolding hexdigit_def by (rule nth_mem)
  then show ?thesis by auto
qed

lemma repr_byte_escape:
  assumes "c \<noteq> newline" "c \<noteq> backslash" "repr_byte q c \<noteq> [c]" "q \<noteq> backslash" "q \<noteq> CHR ''n''"
  shows "\<exists>d r. repr_byte q c = backslash # d # r \<and> d \<noteq> CHR ''n'' \<and> d \<noteq> backslash
           \<and> backslash \<notin> set r"
proof -
  have "(of_char c :: nat) < 16 * 16"
    using nat_of_char_less_256 [of c] by simp
  then have "(of_char c :: nat) div 16 < 16"
    by (rule less_mult_imp_div_less)
  then have hi: "backslash \<noteq> hexdigit ((of_char c :: nat) div 16)"
    using hexdigit_plain by fastforce
  have lo: "backslash \<noteq> hexdigit ((of_char c :: nat) mod 16)"
    using hexdigit_plain [of "(of_char c :: nat) mod 16"] by fastforce
  show ?thesis
    using assms hi lo by (auto simp: repr_byte_def split: if_splits)
qed

lemma repr_quote_plain: "repr_quote bs \<noteq> backslash \<and> repr_quote bs \<noteq> CHR ''n''"
  by (simp add: repr_quote_def)

lemma unescape_keeps_escape:
  assumes "c \<noteq> newline" "c \<noteq> backslash" "repr_byte q c \<noteq> [c]" "q \<noteq> backslash" "q \<noteq> CHR ''n''"
  shows "unescape (a @ repr_byte q c @ b) = unescape a @ repr_byte q c @ unescape b"
proof -
  from repr_byte_escape [OF assms] obtain d r where
    e: "repr_byte q c = backslash # d # r" and d: "d \<noteq> CHR ''n''" "d \<noteq> backslash"
    and r: "backslash \<notin> set r"
    by blast
  have "unescape (a @ backslash # d # r @ b) = unescape a @ unescape (backslash # d # r @ b)"
    by (rule unescape_append_backslash)
  also have "unescape (backslash # d # r @ b) = backslash # d # unescape (r @ b)"
    using d by (simp add: unescape_simps unescape_Cons_other)
  also have "unescape (r @ b) = r @ unescape b"
    using r by (rule unescape_plain_prefix)
  finally show ?thesis by (simp add: e)
qed

lemma repr_body_append: "repr_body q (xs @ ys) = repr_body q xs @ repr_body q ys"
  by (simp add: repr_body_def)

lemma repr_body_Cons: "repr_body q (c # ys) = repr_byte q c @ repr_body q ys"
  by (simp add: repr_body_def)

lemma unescape_bytes_repr:
  "unescape (bytes_repr bs) =
     CHR ''b'' # repr_quote bs # unescape (repr_body (repr_quote bs) bs) @ [repr_quote bs]"
proof -
  have "unescape (bytes_repr bs) =
      unescape ((CHR ''b'' # repr_quote bs # repr_body (repr_quote bs) bs) @ [repr_quote bs])"
    by (simp add: bytes_repr_def Let_def)
  also have "\<dots> = unescape (CHR ''b'' # repr_quote bs # repr_body (repr_quote bs) bs)
      @ [repr_quote bs]"
    using repr_quote_plain [of bs] by (intro unescape_snoc) simp
  finally show ?thesis
    using repr_quote_plain [of bs] by (simp add: unescape_Cons_other)
qed

lemma esbmc_result:
  assumes "run_process w (esbmc_cmd cfg path params) = Inr p"
  shows "esbmc w cfg path params =
     ([Popen (esbmc_cmd cfg path params)],
      Inr (returncode p, unescape (bytes_repr (stdout_bytes p)), unescape ''None''))"
  using assms by (simp add: esbmc_def communicate_def comp_defs Let_def)

lemma sample_run:
  "run_process (sample_world present (Inr p) backend lines) cmd = Inr p"
  by (simp add: sample_world_def)

subsection \<open>What the runner returns\<close>

text \<open>
  C6. When the verifier ran, the two texts the runner returns are \<open>str\<close> of what
  \<open>communicate\<close> handed back with \<open>replace\<close> applied, and \<open>replace\<close> turns every
  backslash followed by \<open>n\<close> into a line feed: the result of a text with such a pair is the
  result of the part before it, a line feed, and the result of the part after it; no result
  holds such a pair; a text without such a pair stays as it is.
\<close>

theorem escaped_newlines_replaced:
  assumes "run_process w (esbmc_cmd cfg path params) = Inr p"
  shows "snd (esbmc w cfg path params) =
           Inr (returncode p, unescape (py_str (fst (communicate True False p))),
                unescape (py_str (snd (communicate True False p))))
       \<and> (\<forall>a b. unescape (a @ [backslash, CHR ''n''] @ b) = unescape a @ [newline] @ unescape b)
       \<and> (\<forall>s a b. unescape s \<noteq> a @ [backslash, CHR ''n''] @ b)
       \<and> (\<forall>s. (\<forall>a b. s \<noteq> a @ [backslash, CHR ''n''] @ b) \<longrightarrow> unescape s = s)"
proof -
  have "snd (esbmc w cfg path params) =
           Inr (returncode p, unescape (py_str (fst (communicate True False p))),
                unescape (py_str (snd (communicate True False p))))"
    using assms by (simp add: esbmc_def comp_defs Let_def split: prod.splits)
  moreover have "unescape (a @ [backslash, CHR ''n''] @ b) = unescape a @ [newline] @ unescape b"
    for a b
    using unescape_occurrence [of a b] by simp
  moreover have "unescape s \<noteq> a @ [backslash, CHR ''n''] @ b" for s a b
    using unescape_no_occurrence [of s a b] by simp
  moreover have "(\<forall>a b. s \<noteq> a @ [backslash, CHR ''n''] @ b) \<longrightarrow> unescape s = s" for s
    using unescape_id [of s] by simp
  ultimately show ?thesis by blast
qed

theorem escaped_newlines_replaced_witness:
  "run_process (sample_world [] (Inr (sample_process 1)) (\<lambda>_. Inr sample_reply) [])
      (esbmc_cmd sample_config ''a.c'' []) = Inr (sample_process 1)
   \<and> snd (esbmc (sample_world [] (Inr (sample_process 1)) (\<lambda>_. Inr sample_reply) [])
        sample_config ''a.c'' []) =
       Inr (1, CHR ''b'' # squote # ''VERIFICATION FAILED'' @ [newline, squote], ''None'')"
proof -
  let ?w = "sample_world [] (Inr (sample_process 1)) (\<lambda>_. Inr sample_reply) []"
  have run: "run_process ?w (esbmc_cmd sample_config ''a.c'' []) = Inr (sample_process 1)"
    by (rule sample_run)
  have out: "unescape (py_str (fst (communicate True False (sample_process 1)))) =
      CHR ''b'' # squote # ''VERIFICATION FAILED'' @ [newline, squote]"
    by (simp add: communicate_def sample_process_def bytes_repr_def repr_quote_def
        repr_body_def repr_byte_def unescape_simps Let_def)
  have err: "unescape (py_str (snd (communicate True False (sample_process 1)))) = ''None''"
    by (simp add: communicate_def unescape_simps)
  have code: "returncode (sample_process 1) = 1"
    by (simp add: sample_process_def)
  show ?thesis
    using run escaped_newlines_replaced [OF run, THEN conjunct1] by (simp only: out err code)
qed

lemma unescape_keeps_backslash:
  assumes "\<forall>r. b \<noteq> CHR ''n'' # r"
  shows "unescape (a @ repr_byte q backslash @ b) = unescape a @ repr_byte q backslash @ unescape b"
proof -
  have "unescape (backslash # b) = backslash # unescape b"
    using assms by (cases b) (auto simp: unescape_simps)
  then have "unescape (backslash # backslash # b) = backslash # backslash # unescape b"
    by (simp add: unescape_simps)
  then show ?thesis
    using unescape_append_backslash [of a "backslash # b"] by (simp add: repr_byte_def)
qed

lemma repr_body_head:
  assumes "q \<noteq> CHR ''n''" "\<forall>ys'. ys \<noteq> CHR ''n'' # ys'"
  shows "repr_body q ys \<noteq> CHR ''n'' # r"
proof (cases ys)
  case Nil
  then show ?thesis by (simp add: repr_body_def)
next
  case (Cons d ys')
  with assms(2) have "d \<noteq> CHR ''n''" by auto
  then show ?thesis
    using assms(1) by (auto simp: Cons repr_body_Cons repr_byte_def split: if_splits)
qed

text \<open>
  C9, as stated, fails. For the output \<open>it's\<close> the text returned begins with \<open>b\<close> and a
  double quote and ends with a double quote. For the output of a backslash and the letter
  \<open>n\<close>, \<open>repr\<close> writes the backslash as two backslashes, and of this escape sequence only
  one backslash is left, followed by a line feed.
\<close>

theorem stdout_repr_single_quote_counterexample:
  "snd (esbmc (sample_world [] (Inr quoting_process) (\<lambda>_. Inr sample_reply) [])
          sample_config ''a.c'' []) =
     Inr (1, [CHR ''b'', dquote, CHR ''i'', CHR ''t'', squote, CHR ''s'', dquote], ''None'')
   \<and> bytes_repr (stdout_bytes backslash_process) =
       [CHR ''b'', squote, backslash, backslash, CHR ''n'', squote]
   \<and> snd (esbmc (sample_world [] (Inr backslash_process) (\<lambda>_. Inr sample_reply) [])
          sample_config ''a.c'' []) =
       Inr (1, [CHR ''b'', squote, backslash, newline, squote], ''None'')"
  by (simp add: esbmc_result [OF sample_run] unescape_simps)
     (simp add: quoting_process_def backslash_process_def bytes_repr_def repr_quote_def
        repr_body_def repr_byte_def unescape_simps Let_def)

text \<open>
  C9, amended. When the verifier ran, the text returned for its standard output is \<open>b\<close>,
  the delimiter that \<open>repr\<close> chooses for the bytes (a single quote, or a double quote when
  the bytes hold a single quote and no double quote), the body of \<open>repr\<close> with every
  backslash followed by \<open>n\<close> turned into a line feed, and the delimiter again. For every
  byte of the output other than line feed that \<open>repr\<close> does not write as itself (tab,
  carriage return, the delimiter, a byte outside printable ASCII, and the backslash unless
  the byte after it is the letter \<open>n\<close>), its escape sequence stands unchanged in that text,
  between the converted texts of the bytes before it and after it.
\<close>


theorem stdout_is_unescaped_repr:
  assumes "run_process w (esbmc_cmd cfg path params) = Inr p"
  shows "(\<exists>err. snd (esbmc w cfg path params) =
            Inr (returncode p,
                 CHR ''b'' # repr_quote (stdout_bytes p)
                   # unescape (repr_body (repr_quote (stdout_bytes p)) (stdout_bytes p))
                   @ [repr_quote (stdout_bytes p)],
                 err))
       \<and> (\<forall>xs c ys. stdout_bytes p = xs @ c # ys \<and> c \<noteq> newline
              \<and> repr_byte (repr_quote (stdout_bytes p)) c \<noteq> [c]
              \<and> \<not> (c = backslash \<and> (\<exists>ys'. ys = CHR ''n'' # ys')) \<longrightarrow>
            (\<exists>err. snd (esbmc w cfg path params) =
               Inr (returncode p,
                    CHR ''b'' # repr_quote (stdout_bytes p)
                      # unescape (repr_body (repr_quote (stdout_bytes p)) xs)
                      @ repr_byte (repr_quote (stdout_bytes p)) c
                      @ unescape (repr_body (repr_quote (stdout_bytes p)) ys)
                      @ [repr_quote (stdout_bytes p)],
                    err)))"
proof -
  let ?q = "repr_quote (stdout_bytes p)"
  have res: "snd (esbmc w cfg path params) =
      Inr (returncode p,
           CHR ''b'' # ?q # unescape (repr_body ?q (stdout_bytes p)) @ [?q], unescape ''None'')"
    by (simp add: esbmc_result [OF assms] unescape_bytes_repr)
  have "unescape (repr_body ?q (stdout_bytes p)) =
      unescape (repr_body ?q xs) @ repr_byte ?q c @ unescape (repr_body ?q ys)"
    if split: "stdout_bytes p = xs @ c # ys" and nl: "c \<noteq> newline"
      and esc: "repr_byte ?q c \<noteq> [c]"
      and next_byte: "\<not> (c = backslash \<and> (\<exists>ys'. ys = CHR ''n'' # ys'))"
    for xs c ys
  proof (cases "c = backslash")
    case False
    show ?thesis
      using unescape_keeps_escape [OF nl False esc, of "repr_body ?q xs" "repr_body ?q ys"]
        repr_quote_plain [of "stdout_bytes p"]
      by (simp add: split repr_body_append repr_body_Cons)
  next
    case True
    with next_byte have "\<forall>ys'. ys \<noteq> CHR ''n'' # ys'" by simp
    then have "\<forall>r. repr_body ?q ys \<noteq> CHR ''n'' # r"
      using repr_quote_plain [of "stdout_bytes p"] repr_body_head by blast
    then show ?thesis
      using unescape_keeps_backslash [of "repr_body ?q ys" "repr_body ?q xs" ?q]
      by (simp add: split True repr_body_append repr_body_Cons)
  qed
  with res show ?thesis by auto
qed

theorem stdout_is_unescaped_repr_witness:
  "run_process (sample_world [] (Inr tab_process) (\<lambda>_. Inr sample_reply) [])
      (esbmc_cmd sample_config ''a.c'' []) = Inr tab_process
   \<and> stdout_bytes tab_process = ''a'' @ CHR 0x09 # ''b''
   \<and> (\<exists>err. snd (esbmc (sample_world [] (Inr tab_process) (\<lambda>_. Inr sample_reply) [])
                 sample_config ''a.c'' []) =
         Inr (1, [CHR ''b'', squote, CHR ''a'', backslash, CHR ''t'', CHR ''b'', squote], err))
   \<and> run_process (sample_world [] (Inr backslash_b_process) (\<lambda>_. Inr sample_reply) [])
      (esbmc_cmd sample_config ''a.c'' []) = Inr backslash_b_process
   \<and> stdout_bytes backslash_b_process = ''a'' @ backslash # ''b''
   \<and> (\<exists>err. snd (esbmc (sample_world [] (Inr backslash_b_process) (\<lambda>_. Inr sample_reply) [])
                 sample_config ''a.c'' []) =
         Inr (1, [CHR ''b'', squote, CHR ''a'', backslash, backslash, CHR ''b'', squote], err))"
proof -
  let ?w = "\<lambda>p. sample_world [] (Inr p) (\<lambda>_. Inr sample_reply) []"
  have run: "run_process (?w p) (esbmc_cmd sample_config ''a.c'' []) = Inr p" for p
    by (rule sample_run)
  have bytes: "stdout_bytes tab_process = ''a'' @ CHR 0x09 # ''b''"
    "stdout_bytes backslash_b_process = ''a'' @ backslash # ''b''"
    by (simp_all add: tab_process_def backslash_b_process_def)
  have quote: "repr_quote (stdout_bytes tab_process) = squote"
    "repr_quote (stdout_bytes backslash_b_process) = squote"
    by (simp_all add: tab_process_def backslash_b_process_def repr_quote_def)
  have esc: "repr_byte squote (CHR 0x09) = [backslash, CHR ''t'']"
    "repr_byte squote backslash = [backslash, backslash]"
    by (simp_all add: repr_byte_def)
  have plain: "unescape (repr_body squote ''a'') = ''a''" "unescape (repr_body squote ''b'') = ''b''"
    by (simp_all add: repr_body_def repr_byte_def unescape_simps)
  have code: "returncode tab_process = 1" "returncode backslash_b_process = 1"
    by (simp_all add: tab_process_def backslash_b_process_def)
  have hyp_tab: "stdout_bytes tab_process = ''a'' @ CHR 0x09 # ''b'' \<and> CHR 0x09 \<noteq> newline
      \<and> repr_byte (repr_quote (stdout_bytes tab_process)) (CHR 0x09) \<noteq> [CHR 0x09]
      \<and> \<not> (CHR 0x09 = backslash \<and> (\<exists>ys'. ''b'' = CHR ''n'' # ys'))"
    by (simp add: tab_process_def repr_quote_def repr_byte_def)
  have hyp_bs: "stdout_bytes backslash_b_process = ''a'' @ backslash # ''b'' \<and> backslash \<noteq> newline
      \<and> repr_byte (repr_quote (stdout_bytes backslash_b_process)) backslash \<noteq> [backslash]
      \<and> \<not> (backslash = backslash \<and> (\<exists>ys'. ''b'' = CHR ''n'' # ys'))"
    by (simp add: backslash_b_process_def repr_quote_def repr_byte_def)
  have tab: "\<exists>err. snd (esbmc (?w tab_process) sample_config ''a.c'' []) =
         Inr (1, [CHR ''b'', squote, CHR ''a'', backslash, CHR ''t'', CHR ''b'', squote], err)"
    using stdout_is_unescaped_repr [OF run, THEN conjunct2, rule_format, OF hyp_tab]
    unfolding quote esc plain code by simp
  have bs: "\<exists>err. snd (esbmc (?w backslash_b_process) sample_config ''a.c'' []) =
         Inr (1, [CHR ''b'', squote, CHR ''a'', backslash, backslash, CHR ''b'', squote], err)"
    using stdout_is_unescaped_repr [OF run, THEN conjunct2, rule_format, OF hyp_bs]
    unfolding quote esc plain code by simp
  from run [of tab_process] run [of backslash_b_process] bytes tab bs show ?thesis
    by blast
qed

text \<open>
  C3. The runner pipes the standard output of the child only. For a verifier that writes
  \<open>warning\<close> to its standard error, the third component of the result is the text
  \<open>None\<close>: what the child wrote there is not in the result.
\<close>

theorem stderr_not_captured:
  "stderr_bytes (sample_process 1) = ''warning''
   \<and> snd (esbmc (sample_world [] (Inr (sample_process 1)) (\<lambda>_. Inr sample_reply) [])
        sample_config ''a.c'' []) =
       Inr (1, unescape (bytes_repr (stdout_bytes (sample_process 1))), ''None'')"
  by (simp add: esbmc_result [OF sample_run] unescape_simps) (simp add: sample_process_def)

subsection \<open>The exit code of the verifier\<close>

lemma startup_ok:
  assumes env: "path_exists w ''.env''"
    and bin: "path_exists w (esbmc_path (loaded_config w args))"
    and src: "read_file w (filename args) = Inr source_code"
    and run: "run_process w (esbmc_cmd (loaded_config w args) (filename args) (default_esbmc_params w)) = Inr p"
  shows "snd (startup w args) =
           Inr (loaded_config w args, source_code, returncode p,
                unescape (bytes_repr (stdout_bytes p)), ''None'')"
    and "backend_calls (fst (startup w args)) = []"
    and "verifier_calls (fst (startup w args)) =
           [esbmc_cmd (loaded_config w args) (filename args) (default_esbmc_params w)]"
  using assms
  by (simp_all add: startup_def init_check_health_def check_health_def get_src_def esbmc_def
      communicate_def comp_defs Let_def unescape_None backend_calls_append verifier_calls_append)


lemma main_code_zero:
  assumes "path_exists w ''.env''"
    and "path_exists w (esbmc_path (loaded_config w args))"
    and "read_file w (filename args) = Inr source_code"
    and "run_process w (esbmc_cmd (loaded_config w args) (filename args) (default_esbmc_params w)) = Inr p"
    and "returncode p = 0"
  shows "main w args =
      (fst (startup w args) @ [Print ''Success!'', Print (unescape (bytes_repr (stdout_bytes p)))],
       Exit 0, None)"
proof -
  have st: "startup w args =
      (fst (startup w args),
       Inr (loaded_config w args, source_code, returncode p,
            unescape (bytes_repr (stdout_bytes p)), ''None''))"
    using startup_ok(1) [OF assms(1-4)] by (metis prod.collapse)
  show ?thesis
    by (subst main_def, subst st) (simp add: assms(5))
qed

lemma printv_calls [simp]: "backend_calls (fst (printv vb m)) = []"
  by (simp add: comp_defs)

lemma build_system_messages_trace:
  "fst (build_system_messages w cfg source_code esbmc_output) =
     fst (printv (verbose cfg) ''Loading system messages'')"
  by (simp add: build_system_messages_def comp_defs)

lemma send_with_anim_calls:
  "send_with_anim api caption c text = (t, c', r) \<Longrightarrow> backend_calls t = [text]"
  by (auto simp: send_with_anim_def split: prod.splits sum.splits)

lemma llm_phase_first_call:
  "\<exists>rest. backend_calls (fst (llm_phase w cfg source_code esbmc_output)) =
     (if cfg_initial_prompt cfg \<noteq> [] then cfg_initial_prompt cfg else DEFAULT_PROMPT) # rest"
proof -
  obtain t1 built where b: "build_system_messages w cfg source_code esbmc_output = (t1, built)"
    by (cases "build_system_messages w cfg source_code esbmc_output")
  have t1: "backend_calls t1 = []"
    using build_system_messages_trace [of w cfg source_code esbmc_output] b by simp
  have t0: "backend_calls (fst (seq (printv (verbose cfg) ''Initializing OpenAI'')
                      (emit (SetApiKey (openai_api_key cfg))))) = []"
    by (simp add: comp_defs)
  show ?thesis
    unfolding llm_phase_def Let_def b
    by (auto simp: backend_calls_append t0 t1 split: prod.splits sum.splits
        dest!: send_with_anim_calls)
qed

lemma digit_char: "(n::nat) < 10 \<Longrightarrow> (of_char (char_of (48 + n)) :: nat) = 48 + n"
  by simp

lemma digit_not_minus: "(n::nat) < 10 \<Longrightarrow> char_of (48 + n) \<noteq> CHR ''-''"
proof
  assume "n < 10" and "char_of (48 + n) = CHR ''-''"
  then have "(of_char (char_of (48 + n)) :: nat) = of_char (CHR ''-'')" by simp
  with \<open>n < 10\<close> show False by simp
qed

lemma decimal_nat_str_nat: "decimal_nat (str_nat n) = n"
proof (induction n rule: str_nat.induct)
  case (1 n)
  show ?case
  proof (cases "n < 10")
    case True
    then show ?thesis
      by (subst str_nat.simps) (simp add: decimal_nat_def)
  next
    case False
    have "n mod 10 < 10" by simp
    then have d: "(of_char (char_of (48 + n mod 10)) :: nat) = 48 + n mod 10"
      by (rule digit_char)
    have "decimal_nat (str_nat n) = 10 * decimal_nat (str_nat (n div 10)) + n mod 10"
      using False by (subst str_nat.simps) (simp add: decimal_nat_def d)
    with 1 [OF False] show ?thesis by simp
  qed
qed

lemma str_nat_head: "\<exists>c ds. str_nat n = c # ds \<and> c \<noteq> CHR ''-''"
proof (induction n rule: str_nat.induct)
  case (1 n)
  show ?case
  proof (cases "n < 10")
    case True
    then show ?thesis
      by (subst str_nat.simps) (simp add: digit_not_minus)
  next
    case False
    with 1 [OF False] show ?thesis
      by (subst str_nat.simps) auto
  qed
qed

lemma decimal_value_str_int: "decimal_value (str_int i) = i"
proof (cases "i < 0")
  case True
  then show ?thesis by (simp add: str_int_def decimal_nat_str_nat)
next
  case False
  obtain c ds where s: "str_nat (nat i) = c # ds" "c \<noteq> CHR ''-''"
    using str_nat_head by blast
  have "decimal_nat (c # ds) = nat i"
    using decimal_nat_str_nat [of "nat i"] s by simp
  with False s show ?thesis by (simp add: str_int_def)
qed

lemma str_int_examples: "str_int 2 = ''2''" "str_int (- 11) = ''-11''" "str_int 139 = ''139''"
  by code_simp+

lemma startup_ok_trace:
  assumes env: "path_exists w ''.env''"
    and bin: "path_exists w (esbmc_path (loaded_config w args))"
    and src: "read_file w (filename args) = Inr source_code"
    and run: "run_process w (esbmc_cmd (loaded_config w args) (filename args) (default_esbmc_params w)) = Inr p"
  shows "fst (startup w args) =
     [Print ''ESBMC-AI'', Print []]
       @ fst (printv (arg_verbose args) ''Performing init health check...'')
       @ fst (printv (arg_verbose args) ''Environment file has been located'')
       @ fst (config_printv (loaded_config w args) ''Performing health check...'')
       @ fst (config_printv (loaded_config w args) ''ESBMC has been located'')
       @ fst (config_printv (loaded_config w args) ''Reading source code...'')
       @ fst (config_printv (loaded_config w args)
               (''Running ESBMC with '' @ str_list w (esbmc_params (loaded_config w args))))
       @ [AnimStart ''ESBMC is processing... Please Wait'',
          Popen (esbmc_cmd (loaded_config w args) (filename args) (default_esbmc_params w)),
          AnimStop]"
  using assms
  by (simp add: startup_def init_check_health_def check_health_def get_src_def esbmc_def
      communicate_def comp_defs Let_def)

lemma main_code_one:
  assumes "path_exists w ''.env''"
    and "path_exists w (esbmc_path (loaded_config w args))"
    and "read_file w (filename args) = Inr source_code"
    and "run_process w (esbmc_cmd (loaded_config w args) (filename args) (default_esbmc_params w)) = Inr p"
    and "returncode p = 1"
  shows "main w args =
      (fst (startup w args)
         @ fst (llm_phase w (loaded_config w args) source_code
                  (unescape (bytes_repr (stdout_bytes p)))),
       snd (llm_phase w (loaded_config w args) source_code
                  (unescape (bytes_repr (stdout_bytes p)))))"
proof -
  have st: "startup w args =
      (fst (startup w args),
       Inr (loaded_config w args, source_code, returncode p,
            unescape (bytes_repr (stdout_bytes p)), ''None''))"
    using startup_ok(1) [OF assms(1-4)] by (metis prod.collapse)
  show ?thesis
    by (subst main_def, subst st) (simp add: assms(5) split: prod.splits)
qed

text \<open>
  C1. When the checks of the start pass, the source file is read and the verifier runs to
  its end, \<open>main\<close> goes by the exit code alone: on 0 it prints \<open>Success!\<close> and the text the
  runner returned for the verifier's standard output and exits with status 0, having
  called the backend not once; on 1 it goes on with the part that talks to the backend,
  whose first call sends the initial prompt; on any other code it prints
  \<open>ESBMC exit code:\<close> and the code in decimal digits and exits with status 1, again
  without a call of the backend. What was printed before is the banner, the verbose
  messages, and the start of the indicator, the command and the stop of the indicator.
\<close>


theorem exit_code_classification:
  assumes env: "path_exists w ''.env''"
    and bin: "path_exists w (esbmc_path (loaded_config w args))"
    and src: "read_file w (filename args) = Inr source_code"
    and run: "run_process w (esbmc_cmd (loaded_config w args) (filename args) (default_esbmc_params w)) = Inr p"
  shows "(returncode p = 0 \<longrightarrow>
            main w args =
              (fst (startup w args)
                 @ [Print ''Success!'', Print (unescape (bytes_repr (stdout_bytes p)))],
               Exit 0, None)
            \<and> backend_calls (fst (main w args)) = [])
       \<and> (returncode p = 1 \<longrightarrow>
            main w args =
              (fst (startup w args)
                 @ fst (llm_phase w (loaded_config w args) source_code
                          (unescape (bytes_repr (stdout_bytes p)))),
               snd (llm_phase w (loaded_config w args) source_code
                          (unescape (bytes_repr (stdout_bytes p)))))
            \<and> backend_calls (fst (main w args)) \<noteq> []
            \<and> hd (backend_calls (fst (main w args))) =
                (if cfg_initial_prompt (loaded_config w args) \<noteq> []
                 then cfg_initial_prompt (loaded_config w args) else DEFAULT_PROMPT))
       \<and> (returncode p \<noteq> 0 \<and> returncode p \<noteq> 1 \<longrightarrow>
            main w args =
              (fst (startup w args) @ [Print (''ESBMC exit code: '' @ str_int (returncode p))],
               Exit 1, None)
            \<and> backend_calls (fst (main w args)) = [])
       \<and> decimal_value (str_int (returncode p)) = returncode p
       \<and> snd (esbmc w (loaded_config w args) (filename args) (default_esbmc_params w)) =
            Inr (returncode p, unescape (bytes_repr (stdout_bytes p)), ''None'')
       \<and> fst (startup w args) =
            [Print ''ESBMC-AI'', Print []]
              @ fst (printv (arg_verbose args) ''Performing init health check...'')
              @ fst (printv (arg_verbose args) ''Environment file has been located'')
              @ fst (config_printv (loaded_config w args) ''Performing health check...'')
              @ fst (config_printv (loaded_config w args) ''ESBMC has been located'')
              @ fst (config_printv (loaded_config w args) ''Reading source code...'')
              @ fst (config_printv (loaded_config w args)
                      (''Running ESBMC with '' @ str_list w (esbmc_params (loaded_config w args))))
              @ [AnimStart ''ESBMC is processing... Please Wait'',
                 Popen (esbmc_cmd (loaded_config w args) (filename args) (default_esbmc_params w)),
                 AnimStop]"
proof -
  let ?out = "unescape (bytes_repr (stdout_bytes p))"
  let ?cfg = "loaded_config w args"
  have st: "startup w args =
      (fst (startup w args), Inr (?cfg, source_code, returncode p, ?out, ''None''))"
    using startup_ok(1) [OF assms] by (metis prod.collapse)
  note quiet = startup_ok(2) [OF assms]
  obtain rest where first: "backend_calls (fst (llm_phase w ?cfg source_code ?out)) =
      (if cfg_initial_prompt ?cfg \<noteq> [] then cfg_initial_prompt ?cfg else DEFAULT_PROMPT) # rest"
    using llm_phase_first_call by blast
  have zero: "returncode p = 0 \<Longrightarrow>
      main w args = (fst (startup w args) @ [Print ''Success!'', Print ?out], Exit 0, None)"
    by (subst main_def, subst st) simp
  have one: "returncode p = 1 \<Longrightarrow>
      main w args = (fst (startup w args) @ fst (llm_phase w ?cfg source_code ?out),
                     snd (llm_phase w ?cfg source_code ?out))"
    by (subst main_def, subst st) (simp split: prod.splits)
  have other: "returncode p \<noteq> 0 \<Longrightarrow> returncode p \<noteq> 1 \<Longrightarrow>
      main w args =
        (fst (startup w args) @ [Print (''ESBMC exit code: '' @ str_int (returncode p))],
         Exit 1, None)"
    by (subst main_def, subst st) simp
  have branches: "(returncode p = 0 \<longrightarrow>
            main w args = (fst (startup w args) @ [Print ''Success!'', Print ?out], Exit 0, None)
            \<and> backend_calls (fst (main w args)) = [])
       \<and> (returncode p = 1 \<longrightarrow>
            main w args = (fst (startup w args) @ fst (llm_phase w ?cfg source_code ?out),
                           snd (llm_phase w ?cfg source_code ?out))
            \<and> backend_calls (fst (main w args)) \<noteq> []
            \<and> hd (backend_calls (fst (main w args))) =
                (if cfg_initial_prompt ?cfg \<noteq> [] then cfg_initial_prompt ?cfg else DEFAULT_PROMPT))
       \<and> (returncode p \<noteq> 0 \<and> returncode p \<noteq> 1 \<longrightarrow>
            main w args =
              (fst (startup w args) @ [Print (''ESBMC exit code: '' @ str_int (returncode p))],
               Exit 1, None)
            \<and> backend_calls (fst (main w args)) = [])"
    using zero one other quiet first by (simp add: backend_calls_append)
  have runner: "snd (esbmc w ?cfg (filename args) (default_esbmc_params w)) =
      Inr (returncode p, ?out, ''None'')"
    by (simp add: esbmc_result [OF run] unescape_None)
  show ?thesis
    using branches decimal_value_str_int [of "returncode p"] runner startup_ok_trace [OF assms]
    by blast
qed

theorem exit_code_classification_witness:
  "main (sample_world [''.env'', ''./esbmc''] (Inr successful_process) (\<lambda>_. Inr sample_reply) [])
      sample_args
    = ([Print ''ESBMC-AI'', Print [], AnimStart ''ESBMC is processing... Please Wait'',
        Popen [''./esbmc'', ''--k-induction'', ''a.c''], AnimStop, Print ''Success!'',
        Print (CHR ''b'' # squote # ''VERIFICATION SUCCESSFUL'' @ [squote])],
       Exit 0, None)
   \<and> hd (backend_calls (fst (main (sample_world [''.env'', ''./esbmc''] (Inr (sample_process 1))
                       (\<lambda>_. Inr sample_reply) []) sample_args))) = DEFAULT_PROMPT
   \<and> backend_calls (fst (main (sample_world [''.env'', ''./esbmc''] (Inr (sample_process 1))
                       (\<lambda>_. Inr sample_reply) []) sample_args)) \<noteq> []
   \<and> main (sample_world [''.env'', ''./esbmc''] (Inr (sample_process 2)) (\<lambda>_. Inr sample_reply) [])
      sample_args
    = ([Print ''ESBMC-AI'', Print [], AnimStart ''ESBMC is processing... Please Wait'',
        Popen [''./esbmc'', ''--k-induction'', ''a.c''], AnimStop,
        Print ''ESBMC exit code: 2''],
       Exit 1, None)
   \<and> main (sample_world [''.env'', ''./esbmc''] (Inr (sample_process (- 11)))
        (\<lambda>_. Inr sample_reply) []) sample_args
    = ([Print ''ESBMC-AI'', Print [], AnimStart ''ESBMC is processing... Please Wait'',
        Popen [''./esbmc'', ''--k-induction'', ''a.c''], AnimStop,
        Print ''ESBMC exit code: -11''],
       Exit 1, None)"
proof -
  let ?w = "\<lambda>p. sample_world [''.env'', ''./esbmc''] (Inr p) (\<lambda>_. Inr sample_reply) []"
  have env: "path_exists (?w p) ''.env''" for p
    by (simp add: sample_defs)
  have bin: "path_exists (?w p) (esbmc_path (loaded_config (?w p) sample_args))" for p
    by (simp add: sample_defs)
  have src: "read_file (?w p) (filename sample_args) = Inr ''int main() {}''" for p
    by (simp add: sample_defs)
  have run: "run_process (?w p)
      (esbmc_cmd (loaded_config (?w p) sample_args) (filename sample_args)
         (default_esbmc_params (?w p))) = Inr p" for p
    by (rule sample_run)
  note all = exit_code_classification [OF env bin src run]
  have pre: "fst (startup (?w p) sample_args) =
      [Print ''ESBMC-AI'', Print [], AnimStart ''ESBMC is processing... Please Wait'',
       Popen [''./esbmc'', ''--k-induction'', ''a.c''], AnimStop]" for p
    using all [of p, THEN conjunct2, THEN conjunct2, THEN conjunct2, THEN conjunct2,
        THEN conjunct2]
    by (simp add: sample_defs esbmc_cmd_def comp_defs)
  have code: "returncode successful_process = 0" "returncode (sample_process 1) = 1"
    "returncode (sample_process 2) \<noteq> 0 \<and> returncode (sample_process 2) \<noteq> 1"
    "returncode (sample_process (- 11)) \<noteq> 0 \<and> returncode (sample_process (- 11)) \<noteq> 1"
    by (simp_all add: sample_process_def successful_process_def)
  have shown: "str_int (returncode (sample_process 2)) = ''2''"
    "str_int (returncode (sample_process (- 11))) = ''-11''"
    by (simp_all add: sample_process_def str_int_examples)
  have out: "unescape (bytes_repr (stdout_bytes successful_process)) =
      CHR ''b'' # squote # ''VERIFICATION SUCCESSFUL'' @ [squote]"
    by (simp add: successful_process_def bytes_repr_def repr_quote_def repr_body_def
        repr_byte_def unescape_simps Let_def)
  have zero: "main (?w successful_process) sample_args =
      ([Print ''ESBMC-AI'', Print [], AnimStart ''ESBMC is processing... Please Wait'',
        Popen [''./esbmc'', ''--k-induction'', ''a.c''], AnimStop, Print ''Success!'',
        Print (CHR ''b'' # squote # ''VERIFICATION SUCCESSFUL'' @ [squote])], Exit 0, None)"
    using all [of successful_process, THEN conjunct1, THEN mp, OF code(1), THEN conjunct1]
    by (simp add: pre out)
  have one: "hd (backend_calls (fst (main (?w (sample_process 1)) sample_args))) = DEFAULT_PROMPT"
    "backend_calls (fst (main (?w (sample_process 1)) sample_args)) \<noteq> []"
    using all [of "sample_process 1", THEN conjunct2, THEN conjunct1, THEN mp, OF code(2),
        THEN conjunct2]
    by (simp_all add: sample_defs)
  have two: "main (?w (sample_process 2)) sample_args =
      ([Print ''ESBMC-AI'', Print [], AnimStart ''ESBMC is processing... Please Wait'',
        Popen [''./esbmc'', ''--k-induction'', ''a.c''], AnimStop,
        Print ''ESBMC exit code: 2''], Exit 1, None)"
    using all [of "sample_process 2", THEN conjunct2, THEN conjunct2, THEN conjunct1, THEN mp,
        OF code(3), THEN conjunct1]
    by (simp add: pre shown)
  have killed: "main (?w (sample_process (- 11))) sample_args =
      ([Print ''ESBMC-AI'', Print [], AnimStart ''ESBMC is processing... Please Wait'',
        Popen [''./esbmc'', ''--k-induction'', ''a.c''], AnimStop,
        Print ''ESBMC exit code: -11''], Exit 1, None)"
    using all [of "sample_process (- 11)", THEN conjunct2, THEN conjunct2, THEN conjunct1,
        THEN mp, OF code(4), THEN conjunct1]
    by (simp add: pre shown)
  show ?thesis
    using zero one two killed by blast
qed

text \<open>
  C2. With the extra parameter \<open>--overflow-check\<close> on the command line, the only command
  started is the verifier path, the default parameters and the file name: \<open>main\<close> calls
  \<open>esbmc\<close> with the file name alone, so the extra parameter is not among the arguments.
\<close>

theorem extra_params_not_forwarded:
  "remaining sample_args = [''--overflow-check'']
   \<and> verifier_calls (fst (main (sample_world [''.env'', ''./esbmc''] (Inr (sample_process 0))
                                (\<lambda>_. Inr sample_reply) []) sample_args))
       = [[''./esbmc'', ''--k-induction'', ''a.c'']]"
proof -
  let ?w = "sample_world [''.env'', ''./esbmc''] (Inr (sample_process 0)) (\<lambda>_. Inr sample_reply) []"
  have env: "path_exists ?w ''.env''"
    by (simp add: sample_defs)
  have bin: "path_exists ?w (esbmc_path (loaded_config ?w sample_args))"
    by (simp add: sample_defs)
  have src: "read_file ?w (filename sample_args) = Inr ''int main() {}''"
    by (simp add: sample_defs)
  have run: "run_process ?w
      (esbmc_cmd (loaded_config ?w sample_args) (filename sample_args)
         (default_esbmc_params ?w)) = Inr (sample_process 0)"
    by (rule sample_run)
  have cmd: "esbmc_cmd (loaded_config ?w sample_args) (filename sample_args)
         (default_esbmc_params ?w) = [''./esbmc'', ''--k-induction'', ''a.c'']"
    by (simp add: sample_defs esbmc_cmd_def)
  have "returncode (sample_process 0) = 0"
    by (simp add: sample_process_def)
  then have "verifier_calls (fst (main ?w sample_args)) = verifier_calls (fst (startup ?w sample_args))"
    by (simp add: main_code_zero [OF env bin src run] verifier_calls_append)
  with startup_ok(3) [OF env bin src run] cmd show ?thesis
    by (simp add: sample_args_def)
qed

subsection \<open>The interactive loop\<close>

lemma print_help_trace:
  "fst print_help = [Print [], Print ''Commands:'', Print ''/help: Print this help message.'',
     Print ''/exit: Exit the program.'', Print []]"
  by (simp add: print_help_def comp_defs)

lemma loop_empty_line:
  "loop cfg api c ([] # rest) =
     (Input ''>: '' # fst (loop cfg api c rest), snd (loop cfg api c rest))"
  by (simp split: prod.splits)

lemma loop_help:
  "loop cfg api c (''/help'' # rest) =
     (Input ''>: '' # fst print_help @ fst (loop cfg api c rest), snd (loop cfg api c rest))"
  by (simp split: prod.splits)

lemma loop_exit:
  "loop cfg api c (''/exit'' # rest) = ([Input ''>: '', Print ''exiting...''], Exit 0, c)"
  by simp

lemma loop_other:
  assumes "line \<noteq> ''/exit''" "line \<noteq> ''/help''" "line \<noteq> []"
  shows "loop cfg api c (line # rest) =
     (case send_message api c line of
        (c', Inl e) \<Rightarrow>
          ([Input ''>: '', Print [], AnimStart ''Generating response... Please Wait'',
            SendMessage line], Uncaught e, c')
      | (c', Inr r) \<Rightarrow>
          ([Input ''>: '', Print [], AnimStart ''Generating response... Please Wait'',
            SendMessage line, AnimStop]
             @ fst (print_assistant_response cfg api c' r) @ fst (loop cfg api c' rest),
           snd (loop cfg api c' rest)))"
  using assms by (simp add: send_with_anim_def split: prod.splits sum.splits)

declare loop.simps(2) [simp del]

lemma backend_calls_prints: "list_all is_print t \<Longrightarrow> backend_calls t = []"
  by (induction t rule: backend_calls.induct) simp_all

lemma print_assistant_response_prints:
  "list_all is_print (fst (print_assistant_response cfg api c r))"
  by (simp add: print_assistant_response_def comp_defs)

lemma loop_skips_noops:
  "snd (loop cfg api c lines) = snd (loop cfg api c (filter (\<lambda>l. \<not> is_noop l) lines))
   \<and> backend_calls (fst (loop cfg api c lines))
       = backend_calls (fst (loop cfg api c (filter (\<lambda>l. \<not> is_noop l) lines)))"
proof (induction lines arbitrary: c)
  case Nil
  show ?case by simp
next
  case (Cons line rest)
  consider "line = []" | "line = ''/help''" | "line = ''/exit''"
    | "line \<noteq> ''/exit''" "line \<noteq> ''/help''" "line \<noteq> []"
    by blast
  then show ?case
  proof cases
    case 1
    then show ?thesis using Cons [of c] by (simp add: loop_empty_line is_noop_def)
  next
    case 2
    then show ?thesis using Cons [of c]
      by (simp add: loop_help is_noop_def print_help_trace)
  next
    case 3
    then show ?thesis by (simp add: loop_exit is_noop_def)
  next
    case 4
    then have keep: "\<not> is_noop line" by (simp add: is_noop_def)
    obtain c' r where s: "send_message api c line = (c', r)"
      by (cases "send_message api c line")
    show ?thesis
    proof (cases r)
      case (Inl e)
      with s 4 keep show ?thesis by (simp add: loop_other)
    next
      case (Inr reply)
      with s 4 keep Cons [of c'] show ?thesis
        by (simp add: loop_other backend_calls_append backend_calls_prints
            print_assistant_response_prints)
    qed
  qed
qed

text \<open>
  C8. A turn of the loop on the empty line prints nothing, and a turn on \<open>/help\<close> prints
  the five lines of the command list; both go on with the next line and the same chat
  object. So lines of these two kinds, however many and wherever they stand among the
  others, change neither how the loop ends, nor the chat object it ends with, nor the
  messages sent to the backend; when all lines are of these kinds, nothing is sent and the
  chat object at the end of the input is the one the loop started with.
\<close>

theorem noop_commands_leave_session:
  "loop cfg api c ([] # rest) =
     (Input ''>: '' # fst (loop cfg api c rest), snd (loop cfg api c rest))
   \<and> loop cfg api c (''/help'' # rest) =
     (Input ''>: '' # [Print [], Print ''Commands:'', Print ''/help: Print this help message.'',
        Print ''/exit: Exit the program.'', Print []] @ fst (loop cfg api c rest),
      snd (loop cfg api c rest))
   \<and> snd (loop cfg api c lines) = snd (loop cfg api c (filter (\<lambda>l. \<not> is_noop l) lines))
   \<and> backend_calls (fst (loop cfg api c lines))
       = backend_calls (fst (loop cfg api c (filter (\<lambda>l. \<not> is_noop l) lines)))
   \<and> (list_all is_noop lines \<longrightarrow>
        snd (loop cfg api c lines) = (Uncaught EOFError, c)
        \<and> backend_calls (fst (loop cfg api c lines)) = [])"
proof -
  have "filter (\<lambda>l. \<not> is_noop l) lines = []" if "list_all is_noop lines"
    using that by (induction lines) simp_all
  then have "list_all is_noop lines \<longrightarrow>
        snd (loop cfg api c lines) = (Uncaught EOFError, c)
        \<and> backend_calls (fst (loop cfg api c lines)) = []"
    using loop_skips_noops [of cfg api c lines] by simp
  then show ?thesis
    using loop_skips_noops [of cfg api c lines]
    by (simp add: loop_empty_line loop_help print_help_trace)
qed

theorem noop_commands_leave_session_witness:
  "list_all is_noop [[], ''/help'', ''/help'', []]
   \<and> snd (loop sample_config (spec_chat (\<lambda>_. Inr sample_reply)) sample_persona
            [[], ''/help'', ''/help'', []]) = (Uncaught EOFError, sample_persona)
   \<and> backend_calls (fst (loop sample_config (spec_chat (\<lambda>_. Inr sample_reply)) sample_persona
            [[], ''/help'', ''/help'', []])) = []"
proof -
  have h: "list_all is_noop [[], ''/help'', ''/help'', []]"
    by (simp add: is_noop_def)
  show ?thesis
    using h noop_commands_leave_session [of sample_config "spec_chat (\<lambda>_. Inr sample_reply)"
        sample_persona _ "[[], ''/help'', ''/help'', []]", THEN conjunct2, THEN conjunct2,
        THEN conjunct2, THEN conjunct2, THEN mp, OF h]
    by blast
qed

lemma loop_starts_with_prompt: "\<exists>t. fst (loop cfg api c lines) = Input ''>: '' # t"
proof (cases lines)
  case Nil
  then show ?thesis by simp
next
  case (Cons line rest)
  consider "line = []" | "line = ''/help''" | "line = ''/exit''"
    | "line \<noteq> ''/exit''" "line \<noteq> ''/help''" "line \<noteq> []"
    by blast
  then show ?thesis
  proof cases
    case 4
    then show ?thesis
      unfolding Cons by (simp add: loop_other split: prod.splits sum.splits)
  qed (simp_all add: Cons loop_empty_line loop_help loop_exit)
qed

text \<open>
  C10. A turn of the loop ends the program with the farewell only on the line \<open>/exit\<close>
  itself, and prints the command list only on the line \<open>/help\<close> itself; every other line
  that is not empty is handed to \<open>send_message\<close> as it is, after an empty line is printed
  and the indicator is started.
\<close>

theorem commands_by_exact_equality:
  "(fst (loop cfg api c (line # rest)) = [Input ''>: '', Print ''exiting...'']
      \<longleftrightarrow> line = ''/exit'')
   \<and> (take 3 (fst (loop cfg api c (line # rest))) =
        [Input ''>: '', Print [], Print ''Commands:''] \<longleftrightarrow> line = ''/help'')
   \<and> (line \<noteq> ''/exit'' \<and> line \<noteq> ''/help'' \<and> line \<noteq> [] \<longrightarrow>
        loop cfg api c (line # rest) =
          (case send_message api c line of
             (c', Inl e) \<Rightarrow>
               ([Input ''>: '', Print [], AnimStart ''Generating response... Please Wait'',
                 SendMessage line], Uncaught e, c')
           | (c', Inr r) \<Rightarrow>
               ([Input ''>: '', Print [], AnimStart ''Generating response... Please Wait'',
                 SendMessage line, AnimStop]
                  @ fst (print_assistant_response cfg api c' r) @ fst (loop cfg api c' rest),
                snd (loop cfg api c' rest)))
        \<and> hd (backend_calls (fst (loop cfg api c (line # rest)))) = line
        \<and> backend_calls (fst (loop cfg api c (line # rest))) \<noteq> [])"
proof -
  obtain t where t: "fst (loop cfg api c rest) = Input ''>: '' # t"
    using loop_starts_with_prompt [of cfg api c rest] by blast
  consider "line = []" | "line = ''/help''" | "line = ''/exit''"
    | "line \<noteq> ''/exit''" "line \<noteq> ''/help''" "line \<noteq> []"
    by blast
  then show ?thesis
  proof cases
    case 1
    then show ?thesis by (simp add: loop_empty_line t)
  next
    case 2
    then show ?thesis by (simp add: loop_help print_help_trace)
  next
    case 3
    then show ?thesis by (simp add: loop_exit)
  next
    case 4
    then show ?thesis
      by (simp add: loop_other split: prod.splits sum.splits)
  qed
qed

theorem commands_by_exact_equality_witness:
  "'' /exit'' \<noteq> ''/exit'' \<and> '' /exit'' \<noteq> ''/help'' \<and> '' /exit'' \<noteq> []
   \<and> loop sample_config (spec_chat (\<lambda>_. Inr sample_reply)) [] ['' /exit''] =
       ([Input ''>: '', Print [], AnimStart ''Generating response... Please Wait'',
         SendMessage '' /exit'', AnimStop,
         Print (''assistant: The loop overflows.'' @ [newline]), Input ''>: ''],
        Uncaught EOFError,
        [\<lparr>role = ''user'', content = '' /exit''\<rparr>,
         \<lparr>role = ''assistant'', content = ''The loop overflows.''\<rparr>])"
proof -
  have h: "'' /exit'' \<noteq> ''/exit'' \<and> '' /exit'' \<noteq> ''/help'' \<and> '' /exit'' \<noteq> []"
    by simp
  have sent: "send_message (spec_chat (\<lambda>_. Inr sample_reply)) [] '' /exit'' =
      ([\<lparr>role = ''user'', content = '' /exit''\<rparr>,
        \<lparr>role = ''assistant'', content = ''The loop overflows.''\<rparr>], Inr sample_reply)"
    by (simp add: spec_chat_def sample_reply_def)
  have shown: "fst (print_assistant_response sample_config (spec_chat (\<lambda>_. Inr sample_reply))
        [\<lparr>role = ''user'', content = '' /exit''\<rparr>,
         \<lparr>role = ''assistant'', content = ''The loop overflows.''\<rparr>] sample_reply) =
      [Print (''assistant: The loop overflows.'' @ [newline])]"
    by (simp add: print_assistant_response_def sample_config_def sample_reply_def comp_defs)
  have "loop sample_config (spec_chat (\<lambda>_. Inr sample_reply)) [] ['' /exit''] =
       ([Input ''>: '', Print [], AnimStart ''Generating response... Please Wait'',
         SendMessage '' /exit'', AnimStop,
         Print (''assistant: The loop overflows.'' @ [newline]), Input ''>: ''],
        Uncaught EOFError,
        [\<lparr>role = ''user'', content = '' /exit''\<rparr>,
         \<lparr>role = ''assistant'', content = ''The loop overflows.''\<rparr>])"
    using commands_by_exact_equality [of sample_config "spec_chat (\<lambda>_. Inr sample_reply)" "[]"
        "'' /exit''" "[]", THEN conjunct2, THEN conjunct2, THEN mp, OF h, THEN conjunct1]
    by (simp add: sent shown)
  with h show ?thesis by blast
qed

subsection \<open>The progress indicator\<close>

lemma anim_running_append:
  "anim_running b (t @ t') = anim_running (anim_running b t) t'"
  by (induction b t rule: anim_running.induct) simp_all

lemma anim_running_prints: "list_all is_print t \<Longrightarrow> anim_running b t = b"
  by (induction b t rule: anim_running.induct) simp_all

lemma ends_in_call_Cons: "ends_in_call (e # t) = (if t = [] then is_call e else ends_in_call t)"
  by (simp add: ends_in_call_def)

lemma ends_in_call_append: "t' \<noteq> [] \<Longrightarrow> ends_in_call (t @ t') = ends_in_call t'"
  by (simp add: ends_in_call_def)

lemma ends_in_call_prints: "list_all is_print t \<Longrightarrow> \<not> ends_in_call t"
proof (induction t)
  case Nil
  then show ?case by (simp add: ends_in_call_def)
next
  case (Cons e t)
  then show ?case by (cases e) (simp_all add: ends_in_call_Cons)
qed

lemma after_stopped:
  assumes "\<not> anim_running False pre" "t \<noteq> []"
  shows "anim_running False (pre @ t) = anim_running False t"
    and "ends_in_call (pre @ t) = ends_in_call t"
  using assms by (simp_all add: anim_running_append ends_in_call_append)

lemma loop_nonempty: "fst (loop cfg api c lines) \<noteq> []"
  using loop_starts_with_prompt [of cfg api c lines] by auto

lemma loop_anim:
  "anim_running False (fst (loop cfg api c lines)) = ends_in_call (fst (loop cfg api c lines))
   \<and> (ends_in_call (fst (loop cfg api c lines))
        \<longrightarrow> (\<exists>e. fst (snd (loop cfg api c lines)) = Uncaught e))"
proof (induction lines arbitrary: c)
  case Nil
  show ?case by (simp add: ends_in_call_def)
next
  case (Cons line rest)
  consider "line = []" | "line = ''/help''" | "line = ''/exit''"
    | "line \<noteq> ''/exit''" "line \<noteq> ''/help''" "line \<noteq> []"
    by blast
  then show ?case
  proof cases
    case 1
    then show ?thesis
      using Cons [of c] loop_nonempty [of cfg api c rest]
      by (simp add: loop_empty_line ends_in_call_Cons)
  next
    case 2
    have "anim_running False ((Input ''>: '' # fst print_help) @ fst (loop cfg api c rest))
        = anim_running False (fst (loop cfg api c rest))"
      "ends_in_call ((Input ''>: '' # fst print_help) @ fst (loop cfg api c rest))
        = ends_in_call (fst (loop cfg api c rest))"
      by (rule after_stopped; simp add: print_help_trace loop_nonempty)+
    then show ?thesis
      using Cons [of c] 2 by (simp add: loop_help)
  next
    case 3
    then show ?thesis by (simp add: loop_exit ends_in_call_def)
  next
    case 4
    obtain c' r where s: "send_message api c line = (c', r)"
      by (cases "send_message api c line")
    show ?thesis
    proof (cases r)
      case (Inl e)
      with s 4 show ?thesis by (simp add: loop_other ends_in_call_def)
    next
      case (Inr reply)
      let ?pre = "[Input ''>: '', Print [], AnimStart ''Generating response... Please Wait'',
            SendMessage line, AnimStop] @ fst (print_assistant_response cfg api c' reply)"
      have stopped: "\<not> anim_running False ?pre"
        by (simp add: anim_running_append anim_running_prints print_assistant_response_prints)
      have l: "loop cfg api c (line # rest) =
          (?pre @ fst (loop cfg api c' rest), snd (loop cfg api c' rest))"
        using s 4 Inr by (simp add: loop_other)
      show ?thesis
        unfolding l fst_conv snd_conv
          after_stopped [OF stopped loop_nonempty [of cfg api c' rest]]
        by (rule Cons)
    qed
  qed
qed


lemma printv_anim [simp]: "anim_running b (fst (printv vb m)) = b"
  by (simp add: comp_defs)

lemma llm_phase_anim:
  "anim_running False (fst (llm_phase w cfg source_code esbmc_output))
     = ends_in_call (fst (llm_phase w cfg source_code esbmc_output))
   \<and> (ends_in_call (fst (llm_phase w cfg source_code esbmc_output))
        \<longrightarrow> (\<exists>e. fst (snd (llm_phase w cfg source_code esbmc_output)) = Uncaught e))"
proof -
  obtain t1 built where b: "build_system_messages w cfg source_code esbmc_output = (t1, built)"
    by (cases "build_system_messages w cfg source_code esbmc_output")
  have t1: "t1 = fst (printv (verbose cfg) ''Loading system messages'')"
    using build_system_messages_trace [of w cfg source_code esbmc_output] b by simp
  define c0 where "c0 = new_chat (chat w) (case built of Inr ms \<Rightarrow> ms | Inl _ \<Rightarrow> [])
     (ai_model cfg) (chat_temperature cfg)"
  define prompt where "prompt =
     (if cfg_initial_prompt cfg \<noteq> [] then cfg_initial_prompt cfg else DEFAULT_PROMPT)"
  define pre where "pre =
     fst (seq (printv (verbose cfg) ''Initializing OpenAI'') (emit (SetApiKey (openai_api_key cfg))))
     @ t1 @ fst (printv (verbose cfg) (''Using AI Model: '' @ model_name (chat w) c0))
     @ fst (if cfg_initial_prompt cfg \<noteq> []
            then printv (verbose cfg) (''Using initial prompt from file...'' @ [newline])
            else printv (verbose cfg) (''Using default initial prompts...'' @ [newline]))"
  have stopped: "\<not> anim_running False pre"
    by (simp add: pre_def t1 anim_running_append) (simp add: comp_defs)
  obtain c' r where s: "send_message (chat w) c0 prompt = (c', r)"
    by (cases "send_message (chat w) c0 prompt")
  show ?thesis
  proof (cases r)
    case (Inl e)
    have "llm_phase w cfg source_code esbmc_output =
        (pre @ [AnimStart ''Model is parsing ESBMC output... Please Wait'', SendMessage prompt],
         Uncaught e, Some c')"
      using s Inl
      by (simp add: llm_phase_def Let_def b send_with_anim_def pre_def
          c0_def [symmetric] prompt_def [symmetric])
    then show ?thesis
      by (simp add: anim_running_append ends_in_call_append ends_in_call_def)
  next
    case (Inr reply)
    let ?fin = "pre @ [AnimStart ''Model is parsing ESBMC output... Please Wait'',
        SendMessage prompt, AnimStop] @ fst (print_assistant_response cfg (chat w) c' reply)"
    have fin: "\<not> anim_running False ?fin"
      by (simp add: anim_running_append anim_running_prints print_assistant_response_prints)
    have l: "llm_phase w cfg source_code esbmc_output =
        (?fin @ fst (loop cfg (chat w) c' (stdin w)),
         fst (snd (loop cfg (chat w) c' (stdin w))),
         Some (snd (snd (loop cfg (chat w) c' (stdin w)))))"
      using s Inr
      by (simp add: llm_phase_def Let_def b send_with_anim_def pre_def
          c0_def [symmetric] prompt_def [symmetric] split: prod.splits)
    show ?thesis
      unfolding l fst_conv snd_conv
        after_stopped [OF fin loop_nonempty [of cfg "chat w" c' "stdin w"]]
      by (rule loop_anim)
  qed
qed


lemma startup_anim:
  "case snd (startup w args) of
     Inr _ \<Rightarrow> \<not> anim_running False (fst (startup w args))
   | Inl stop \<Rightarrow>
       anim_running False (fst (startup w args)) = ends_in_call (fst (startup w args))
       \<and> (ends_in_call (fst (startup w args)) \<longrightarrow> (\<exists>e. stop = Uncaught e))"
proof (cases "path_exists w ''.env''")
  case False
  show ?thesis
    by (simp add: startup_env_missing [OF False] anim_running_append ends_in_call_append)
       (simp add: ends_in_call_def)
next
  case env: True
  show ?thesis
  proof (cases "path_exists w (esbmc_path (loaded_config w args))")
    case False
    show ?thesis
      by (simp add: startup_esbmc_missing [OF env False] anim_running_append ends_in_call_append)
         (simp add: ends_in_call_def)
  next
    case bin: True
    show ?thesis
    proof (cases "read_file w (filename args)")
      case (Inl e)
      with env bin show ?thesis
        by (simp add: startup_def init_check_health_def check_health_def get_src_def
            comp_defs Let_def ends_in_call_def)
    next
      case src: (Inr source_code)
      show ?thesis
      proof (cases "run_process w
          (esbmc_cmd (loaded_config w args) (filename args) (default_esbmc_params w))")
        case (Inl e)
        with env bin src show ?thesis
          by (simp add: startup_def init_check_health_def check_health_def get_src_def
              esbmc_def comp_defs Let_def ends_in_call_def)
      next
        case (Inr p)
        with env bin src show ?thesis
          by (simp add: startup_def init_check_health_def check_health_def get_src_def
              esbmc_def communicate_def comp_defs Let_def)
      qed
    qed
  qed
qed

lemmas main_defs = main_def startup_def init_check_health_def check_health_def get_src_def
  esbmc_def esbmc_cmd_def communicate_def llm_phase_def build_system_messages_def
  send_with_anim_def

lemma main_anim:
  "anim_running False (fst (main w args)) = ends_in_call (fst (main w args))
   \<and> (ends_in_call (fst (main w args)) \<longrightarrow> (\<exists>e. fst (snd (main w args)) = Uncaught e))"
proof -
  obtain t r where st: "startup w args = (t, r)"
    by (cases "startup w args")
  show ?thesis
  proof (cases r)
    case (Inl stop)
    with st startup_anim [of w args] show ?thesis
      by (simp add: main_def)
  next
    case (Inr v)
    obtain cfg source_code exit_code esbmc_output esbmc_err
      where v: "v = (cfg, source_code, exit_code, esbmc_output, esbmc_err)"
      by (cases v)
    from st Inr startup_anim [of w args] have stopped: "\<not> anim_running False t"
      by simp
    consider "exit_code = 0" | "exit_code \<noteq> 0" "exit_code \<noteq> 1" | "exit_code = 1"
      by blast
    then show ?thesis
    proof cases
      case 1
      with st Inr v stopped show ?thesis
        by (simp add: main_def anim_running_append ends_in_call_append)
           (simp add: ends_in_call_def)
    next
      case 2
      with st Inr v stopped show ?thesis
        by (simp add: main_def anim_running_append ends_in_call_append)
           (simp add: ends_in_call_def)
    next
      case 3
      let ?l = "llm_phase w cfg source_code esbmc_output"
      have nonempty: "fst ?l \<noteq> []"
        using llm_phase_first_call [of w cfg source_code esbmc_output] by auto
      have m: "main w args = (t @ fst ?l, snd ?l)"
        using st Inr v 3 by (simp add: main_def split: prod.splits)
      show ?thesis
        unfolding m fst_conv snd_conv after_stopped [OF stopped nonempty]
        by (rule llm_phase_anim)
    qed
  qed
qed

lemma startup_run_fails:
  assumes env: "path_exists w ''.env''"
    and bin: "path_exists w (esbmc_path (loaded_config w args))"
    and src: "read_file w (filename args) = Inr source_code"
    and run: "run_process w (esbmc_cmd (loaded_config w args) (filename args) (default_esbmc_params w)) = Inl e"
  shows "\<exists>pre. startup w args =
     (pre @ [AnimStart ''ESBMC is processing... Please Wait'',
             Popen (esbmc_cmd (loaded_config w args) (filename args) (default_esbmc_params w))],
      Inl (Uncaught e))"
proof -
  let ?pre = "[Print ''ESBMC-AI'', Print []]
       @ fst (printv (arg_verbose args) ''Performing init health check...'')
       @ fst (printv (arg_verbose args) ''Environment file has been located'')
       @ fst (config_printv (loaded_config w args) ''Performing health check...'')
       @ fst (config_printv (loaded_config w args) ''ESBMC has been located'')
       @ fst (config_printv (loaded_config w args) ''Reading source code...'')
       @ fst (config_printv (loaded_config w args)
               (''Running ESBMC with '' @ str_list w (esbmc_params (loaded_config w args))))"
  have "startup w args =
     (?pre @ [AnimStart ''ESBMC is processing... Please Wait'',
             Popen (esbmc_cmd (loaded_config w args) (filename args) (default_esbmc_params w))],
      Inl (Uncaught e))"
    using assms
    by (simp add: startup_def init_check_health_def check_health_def get_src_def esbmc_def
        comp_defs Let_def)
  then show ?thesis by blast
qed

lemma main_verifier_raises:
  assumes env: "path_exists w ''.env''"
    and bin: "path_exists w (esbmc_path (loaded_config w args))"
    and src: "read_file w (filename args) = Inr source_code"
    and run: "run_process w (esbmc_cmd (loaded_config w args) (filename args) (default_esbmc_params w)) = Inl e"
  shows "snd (main w args) = (Uncaught e, None)"
    and "anim_running False (fst (main w args))"
    and "last (fst (main w args)) =
           Popen (esbmc_cmd (loaded_config w args) (filename args) (default_esbmc_params w))"
proof -
  obtain pre where st: "startup w args =
     (pre @ [AnimStart ''ESBMC is processing... Please Wait'',
             Popen (esbmc_cmd (loaded_config w args) (filename args) (default_esbmc_params w))],
      Inl (Uncaught e))"
    using startup_run_fails [OF assms] by blast
  show "snd (main w args) = (Uncaught e, None)"
    and "anim_running False (fst (main w args))"
    and "last (fst (main w args)) =
           Popen (esbmc_cmd (loaded_config w args) (filename args) (default_esbmc_params w))"
    by (simp_all add: main_def st anim_running_append)
qed

lemma llm_phase_send_raises:
  assumes seed: "snd (build_system_messages w cfg source_code esbmc_output) = Inr msgs"
    and send: "send_message (chat w)
        (new_chat (chat w) msgs (ai_model cfg) (chat_temperature cfg))
        (if cfg_initial_prompt cfg \<noteq> [] then cfg_initial_prompt cfg else DEFAULT_PROMPT)
      = (c', Inl e)"
  shows "\<exists>pre. llm_phase w cfg source_code esbmc_output =
     (pre @ [AnimStart ''Model is parsing ESBMC output... Please Wait'',
             SendMessage (if cfg_initial_prompt cfg \<noteq> [] then cfg_initial_prompt cfg
                          else DEFAULT_PROMPT)],
      Uncaught e, Some c')"
proof -
  obtain t1 where b: "build_system_messages w cfg source_code esbmc_output = (t1, Inr msgs)"
    using seed by (cases "build_system_messages w cfg source_code esbmc_output") simp
  have "llm_phase w cfg source_code esbmc_output =
     ((fst (seq (config_printv cfg ''Initializing OpenAI'') (emit (SetApiKey (openai_api_key cfg))))
        @ t1
        @ fst (config_printv cfg (''Using AI Model: '' @ model_name (chat w)
                 (new_chat (chat w) msgs (ai_model cfg) (chat_temperature cfg))))
        @ fst (if cfg_initial_prompt cfg \<noteq> []
               then config_printv cfg (''Using initial prompt from file...'' @ [newline])
               else config_printv cfg (''Using default initial prompts...'' @ [newline])))
      @ [AnimStart ''Model is parsing ESBMC output... Please Wait'',
         SendMessage (if cfg_initial_prompt cfg \<noteq> [] then cfg_initial_prompt cfg
                      else DEFAULT_PROMPT)],
      Uncaught e, Some c')"
    using send unfolding llm_phase_def Let_def b send_with_anim_def
    by (simp split: prod.splits)
  then show ?thesis by blast
qed

lemma main_first_send_raises:
  assumes env: "path_exists w ''.env''"
    and bin: "path_exists w (esbmc_path (loaded_config w args))"
    and src: "read_file w (filename args) = Inr source_code"
    and run: "run_process w (esbmc_cmd (loaded_config w args) (filename args) (default_esbmc_params w)) = Inr p"
    and code: "returncode p = 1"
    and seed: "snd (build_system_messages w (loaded_config w args) source_code
                 (unescape (bytes_repr (stdout_bytes p)))) = Inr msgs"
    and send: "send_message (chat w)
        (new_chat (chat w) msgs (ai_model (loaded_config w args))
           (chat_temperature (loaded_config w args)))
        (if cfg_initial_prompt (loaded_config w args) \<noteq> []
         then cfg_initial_prompt (loaded_config w args) else DEFAULT_PROMPT)
      = (c', Inl e)"
  shows "snd (main w args) = (Uncaught e, Some c')"
    and "anim_running False (fst (main w args))"
    and "last (fst (main w args)) =
           SendMessage (if cfg_initial_prompt (loaded_config w args) \<noteq> []
                        then cfg_initial_prompt (loaded_config w args) else DEFAULT_PROMPT)"
proof -
  obtain pre where l: "llm_phase w (loaded_config w args) source_code
        (unescape (bytes_repr (stdout_bytes p))) =
     (pre @ [AnimStart ''Model is parsing ESBMC output... Please Wait'',
             SendMessage (if cfg_initial_prompt (loaded_config w args) \<noteq> []
                          then cfg_initial_prompt (loaded_config w args) else DEFAULT_PROMPT)],
      Uncaught e, Some c')"
    using llm_phase_send_raises [OF seed send] by blast
  note m = main_code_one [OF env bin src run code, unfolded l fst_conv snd_conv]
  show "snd (main w args) = (Uncaught e, Some c')"
    and "anim_running False (fst (main w args))"
    and "last (fst (main w args)) =
           SendMessage (if cfg_initial_prompt (loaded_config w args) \<noteq> []
                        then cfg_initial_prompt (loaded_config w args) else DEFAULT_PROMPT)"
    by (simp_all add: m anim_running_append)
qed

lemma loop_send_raises:
  assumes "line \<noteq> ''/exit''" "line \<noteq> ''/help''" "line \<noteq> []"
    and "send_message api c line = (c', Inl e)"
  shows "snd (loop cfg api c (line # rest)) = (Uncaught e, c')"
    and "anim_running b (pre @ fst (loop cfg api c (line # rest)))"
    and "last (fst (loop cfg api c (line # rest))) = SendMessage line"
  using assms by (simp_all add: loop_other anim_running_append)


lemma loop_after:
  "session_after api c before = Some c2 \<Longrightarrow>
   \<exists>pre. loop cfg api c (before @ later) =
     (pre @ fst (loop cfg api c2 later), snd (loop cfg api c2 later))"
proof (induction before arbitrary: c)
  case Nil
  then have "loop cfg api c ([] @ later) = ([] @ fst (loop cfg api c2 later), snd (loop cfg api c2 later))"
    by simp
  then show ?case by blast
next
  case (Cons line rest)
  consider "line = []" | "line = ''/help''" | "line = ''/exit''"
    | "line \<noteq> ''/exit''" "line \<noteq> ''/help''" "line \<noteq> []"
    by blast
  then show ?case
  proof cases
    case 1
    with Cons.prems have "session_after api c rest = Some c2" by simp
    from Cons.IH [OF this] obtain pre where
      "loop cfg api c (rest @ later) = (pre @ fst (loop cfg api c2 later), snd (loop cfg api c2 later))"
      by blast
    with 1 have "loop cfg api c ((line # rest) @ later) =
        ((Input ''>: '' # pre) @ fst (loop cfg api c2 later), snd (loop cfg api c2 later))"
      by (simp add: loop_empty_line)
    then show ?thesis by blast
  next
    case 2
    with Cons.prems have "session_after api c rest = Some c2" by simp
    from Cons.IH [OF this] obtain pre where
      "loop cfg api c (rest @ later) = (pre @ fst (loop cfg api c2 later), snd (loop cfg api c2 later))"
      by blast
    with 2 have "loop cfg api c ((line # rest) @ later) =
        ((Input ''>: '' # fst print_help @ pre) @ fst (loop cfg api c2 later),
         snd (loop cfg api c2 later))"
      by (simp add: loop_help)
    then show ?thesis by blast
  next
    case 3
    with Cons.prems show ?thesis by simp
  next
    case 4
    obtain c' r where s: "send_message api c line = (c', r)"
      by (cases "send_message api c line")
    show ?thesis
    proof (cases r)
      case (Inl e)
      with s 4 Cons.prems show ?thesis by simp
    next
      case (Inr reply)
      with s 4 Cons.prems have "session_after api c' rest = Some c2" by simp
      from Cons.IH [OF this] obtain pre where
        "loop cfg api c' (rest @ later) =
           (pre @ fst (loop cfg api c2 later), snd (loop cfg api c2 later))"
        by blast
      with s 4 Inr have "loop cfg api c ((line # rest) @ later) =
          (([Input ''>: '', Print [], AnimStart ''Generating response... Please Wait'',
             SendMessage line, AnimStop]
              @ fst (print_assistant_response cfg api c' reply) @ pre)
            @ fst (loop cfg api c2 later),
           snd (loop cfg api c2 later))"
        by (simp add: loop_other)
      then show ?thesis by blast
    qed
  qed
qed

lemma llm_phase_send_returns:
  assumes seed: "snd (build_system_messages w cfg source_code esbmc_output) = Inr msgs"
    and send: "send_message (chat w)
        (new_chat (chat w) msgs (ai_model cfg) (chat_temperature cfg))
        (if cfg_initial_prompt cfg \<noteq> [] then cfg_initial_prompt cfg else DEFAULT_PROMPT)
      = (c1, Inr r)"
  shows "\<exists>pre. llm_phase w cfg source_code esbmc_output =
     (pre @ fst (loop cfg (chat w) c1 (stdin w)),
      fst (snd (loop cfg (chat w) c1 (stdin w))),
      Some (snd (snd (loop cfg (chat w) c1 (stdin w)))))"
proof -
  obtain t1 where b: "build_system_messages w cfg source_code esbmc_output = (t1, Inr msgs)"
    using seed by (cases "build_system_messages w cfg source_code esbmc_output") simp
  have "llm_phase w cfg source_code esbmc_output =
     ((fst (seq (config_printv cfg ''Initializing OpenAI'') (emit (SetApiKey (openai_api_key cfg))))
        @ t1
        @ fst (config_printv cfg (''Using AI Model: '' @ model_name (chat w)
                 (new_chat (chat w) msgs (ai_model cfg) (chat_temperature cfg))))
        @ fst (if cfg_initial_prompt cfg \<noteq> []
               then config_printv cfg (''Using initial prompt from file...'' @ [newline])
               else config_printv cfg (''Using default initial prompts...'' @ [newline]))
        @ [AnimStart ''Model is parsing ESBMC output... Please Wait'',
           SendMessage (if cfg_initial_prompt cfg \<noteq> [] then cfg_initial_prompt cfg
                        else DEFAULT_PROMPT), AnimStop]
        @ fst (print_assistant_response cfg (chat w) c1 r))
      @ fst (loop cfg (chat w) c1 (stdin w)),
      fst (snd (loop cfg (chat w) c1 (stdin w))),
      Some (snd (snd (loop cfg (chat w) c1 (stdin w)))))"
    using send unfolding llm_phase_def Let_def b send_with_anim_def
    by (simp split: prod.splits)
  then show ?thesis by blast
qed

lemma main_later_send_raises:
  assumes env: "path_exists w ''.env''"
    and bin: "path_exists w (esbmc_path (loaded_config w args))"
    and src: "read_file w (filename args) = Inr source_code"
    and run: "run_process w (esbmc_cmd (loaded_config w args) (filename args) (default_esbmc_params w)) = Inr p"
    and code: "returncode p = 1"
    and seed: "snd (build_system_messages w (loaded_config w args) source_code
                 (unescape (bytes_repr (stdout_bytes p)))) = Inr msgs"
    and first: "send_message (chat w)
        (new_chat (chat w) msgs (ai_model (loaded_config w args))
           (chat_temperature (loaded_config w args)))
        (if cfg_initial_prompt (loaded_config w args) \<noteq> []
         then cfg_initial_prompt (loaded_config w args) else DEFAULT_PROMPT)
      = (c1, Inr r)"
    and lines: "stdin w = before @ line # rest"
    and before: "session_after (chat w) c1 before = Some c2"
    and line: "line \<noteq> ''/exit''" "line \<noteq> ''/help''" "line \<noteq> []"
    and send: "send_message (chat w) c2 line = (c3, Inl e)"
  shows "snd (main w args) = (Uncaught e, Some c3)"
    and "anim_running False (fst (main w args))"
    and "last (fst (main w args)) = SendMessage line"
proof -
  let ?cfg = "loaded_config w args"
  obtain pre where l: "llm_phase w ?cfg source_code (unescape (bytes_repr (stdout_bytes p))) =
     (pre @ fst (loop ?cfg (chat w) c1 (stdin w)),
      fst (snd (loop ?cfg (chat w) c1 (stdin w))),
      Some (snd (snd (loop ?cfg (chat w) c1 (stdin w)))))"
    using llm_phase_send_returns [OF seed first] by blast
  obtain pre' where a: "loop ?cfg (chat w) c1 (before @ line # rest) =
     (pre' @ fst (loop ?cfg (chat w) c2 (line # rest)), snd (loop ?cfg (chat w) c2 (line # rest)))"
    using loop_after [OF before] by blast
  have turn: "loop ?cfg (chat w) c2 (line # rest) =
      ([Input ''>: '', Print [], AnimStart ''Generating response... Please Wait'',
        SendMessage line], Uncaught e, c3)"
    using line send by (simp add: loop_other)
  note m = main_code_one [OF env bin src run code, unfolded l fst_conv snd_conv lines a turn]
  show "snd (main w args) = (Uncaught e, Some c3)"
    and "anim_running False (fst (main w args))"
    and "last (fst (main w args)) = SendMessage line"
    by (simp_all add: m anim_running_append)
qed

text \<open>
  C4, as stated, fails. When starting the verifier raises an exception, the run ends with
  the exception right after the call, and the indicator started before the call is still
  running.
\<close>

theorem indicator_left_running_counterexample:
  "main (sample_world [''.env'', ''./esbmc''] (Inl (OSError ''Permission denied''))
           (\<lambda>_. Inr sample_reply) []) sample_args =
     ([Print ''ESBMC-AI'', Print [], AnimStart ''ESBMC is processing... Please Wait'',
       Popen [''./esbmc'', ''--k-induction'', ''a.c'']],
      Uncaught (OSError ''Permission denied''), None)
   \<and> anim_running False
        (fst (main (sample_world [''.env'', ''./esbmc''] (Inl (OSError ''Permission denied''))
                      (\<lambda>_. Inr sample_reply) []) sample_args))"
  by (simp add: main_defs comp_defs sample_defs Let_def)

text \<open>
  C4, amended. The indicator is stopped after each call of the verifier or of the backend
  that returns, and left running when the call raises. At the end of every run it is
  running exactly when the last thing the run did was such a call, and then the run ended
  with an exception. When starting the verifier raises, when the first call of the backend
  raises, and when a later call of the backend in the loop raises, the run ends with that
  exception, right after the call, with the indicator running; the same holds of the turn
  of the loop from any chat object and after any events.
\<close>


theorem indicator_stopped_unless_call_raises:
  "(let cfg = loaded_config w args;
        cmd = esbmc_cmd cfg (filename args) (default_esbmc_params w);
        output = unescape (bytes_repr (stdout_bytes p));
        prompt = (if cfg_initial_prompt cfg \<noteq> [] then cfg_initial_prompt cfg else DEFAULT_PROMPT);
        started = (path_exists w ''.env'' \<and> path_exists w (esbmc_path cfg)
                   \<and> read_file w (filename args) = Inr source_code);
        seeded = (started \<and> run_process w cmd = Inr p \<and> returncode p = 1
                   \<and> snd (build_system_messages w cfg source_code output) = Inr msgs);
        c0 = new_chat (chat w) msgs (ai_model cfg) (chat_temperature cfg)
    in anim_running False (fst (main w args)) = ends_in_call (fst (main w args))
     \<and> (ends_in_call (fst (main w args)) \<longrightarrow> (\<exists>e. fst (snd (main w args)) = Uncaught e))
     \<and> (started \<and> run_process w cmd = Inl e \<longrightarrow>
          snd (main w args) = (Uncaught e, None)
          \<and> anim_running False (fst (main w args))
          \<and> last (fst (main w args)) = Popen cmd)
     \<and> (seeded \<and> send_message (chat w) c0 prompt = (c1, Inl e) \<longrightarrow>
          snd (main w args) = (Uncaught e, Some c1)
          \<and> anim_running False (fst (main w args))
          \<and> last (fst (main w args)) = SendMessage prompt)
     \<and> (seeded \<and> send_message (chat w) c0 prompt = (c1, Inr r)
          \<and> stdin w = before @ line # rest \<and> session_after (chat w) c1 before = Some c2
          \<and> line \<noteq> ''/exit'' \<and> line \<noteq> ''/help'' \<and> line \<noteq> []
          \<and> send_message (chat w) c2 line = (c3, Inl e) \<longrightarrow>
          snd (main w args) = (Uncaught e, Some c3)
          \<and> anim_running False (fst (main w args))
          \<and> last (fst (main w args)) = SendMessage line)
     \<and> (line \<noteq> ''/exit'' \<and> line \<noteq> ''/help'' \<and> line \<noteq> []
          \<and> send_message api c line = (c', Inl e) \<longrightarrow>
          snd (loop cfg api c (line # rest)) = (Uncaught e, c')
          \<and> anim_running b (pre @ fst (loop cfg api c (line # rest)))
          \<and> last (fst (loop cfg api c (line # rest))) = SendMessage line))"
proof -
  let ?cfg = "loaded_config w args"
  let ?cmd = "esbmc_cmd ?cfg (filename args) (default_esbmc_params w)"
  let ?output = "unescape (bytes_repr (stdout_bytes p))"
  let ?prompt = "if cfg_initial_prompt ?cfg \<noteq> [] then cfg_initial_prompt ?cfg else DEFAULT_PROMPT"
  let ?started = "path_exists w ''.env'' \<and> path_exists w (esbmc_path ?cfg)
                   \<and> read_file w (filename args) = Inr source_code"
  let ?seeded = "?started \<and> run_process w ?cmd = Inr p \<and> returncode p = 1
                   \<and> snd (build_system_messages w ?cfg source_code ?output) = Inr msgs"
  let ?c0 = "new_chat (chat w) msgs (ai_model ?cfg) (chat_temperature ?cfg)"
  have verifier: "snd (main w args) = (Uncaught e, None)
          \<and> anim_running False (fst (main w args))
          \<and> last (fst (main w args)) = Popen ?cmd"
    if "?started \<and> run_process w ?cmd = Inl e"
    using that main_verifier_raises [of w args source_code e] by simp
  have first: "snd (main w args) = (Uncaught e, Some c1)
          \<and> anim_running False (fst (main w args))
          \<and> last (fst (main w args)) = SendMessage ?prompt"
    if "?seeded \<and> send_message (chat w) ?c0 ?prompt = (c1, Inl e)"
    using that main_first_send_raises [of w args source_code p msgs c1 e] by simp
  have later: "snd (main w args) = (Uncaught e, Some c3)
          \<and> anim_running False (fst (main w args))
          \<and> last (fst (main w args)) = SendMessage line"
    if "?seeded \<and> send_message (chat w) ?c0 ?prompt = (c1, Inr r)
          \<and> stdin w = before @ line # rest \<and> session_after (chat w) c1 before = Some c2
          \<and> line \<noteq> ''/exit'' \<and> line \<noteq> ''/help'' \<and> line \<noteq> []
          \<and> send_message (chat w) c2 line = (c3, Inl e)"
    using that
      main_later_send_raises [of w args source_code p msgs c1 r before line rest c2 c3 e]
    by simp
  have turn: "snd (loop ?cfg api c (line # rest)) = (Uncaught e, c')
          \<and> anim_running b (pre @ fst (loop ?cfg api c (line # rest)))
          \<and> last (fst (loop ?cfg api c (line # rest))) = SendMessage line"
    if "line \<noteq> ''/exit'' \<and> line \<noteq> ''/help'' \<and> line \<noteq> []
          \<and> send_message api c line = (c', Inl e)"
    using that loop_send_raises [of line api c c' e] by simp
  show ?thesis
    unfolding Let_def
    using main_anim [of w args] verifier first later turn
    by blast
qed

theorem indicator_stopped_unless_call_raises_witness:
  "snd (main (sample_world [''.env'', ''./esbmc''] (Inl (OSError ''Exec format error''))
                 (\<lambda>_. Inr sample_reply) []) sample_args)
     = (Uncaught (OSError ''Exec format error''), None)
   \<and> anim_running False
        (fst (main (sample_world [''.env'', ''./esbmc''] (Inl (OSError ''Exec format error''))
                      (\<lambda>_. Inr sample_reply) []) sample_args))
   \<and> fst (snd (main (sample_world [''.env'', ''./esbmc''] (Inr (sample_process 1))
                      (\<lambda>_. Inl (APIError ''quota'')) []) sample_args))
     = Uncaught (APIError ''quota'')
   \<and> anim_running False
        (fst (main (sample_world [''.env'', ''./esbmc''] (Inr (sample_process 1))
                      (\<lambda>_. Inl (APIError ''quota'')) []) sample_args))
   \<and> fst (snd (main (sample_world [''.env'', ''./esbmc''] (Inr (sample_process 1))
                      failing_backend [''/help'', ''why?'', ''x'']) sample_args))
     = Uncaught (APIError ''quota'')
   \<and> anim_running False
        (fst (main (sample_world [''.env'', ''./esbmc''] (Inr (sample_process 1))
                      failing_backend [''/help'', ''why?'', ''x'']) sample_args))
   \<and> last (fst (main (sample_world [''.env'', ''./esbmc''] (Inr (sample_process 1))
                      failing_backend [''/help'', ''why?'', ''x'']) sample_args))
     = SendMessage ''why?''"
proof -
  let ?wv = "sample_world [''.env'', ''./esbmc''] (Inl (OSError ''Exec format error''))
               (\<lambda>_. Inr sample_reply) []"
  let ?wb = "sample_world [''.env'', ''./esbmc''] (Inr (sample_process 1))
               (\<lambda>_. Inl (APIError ''quota'')) []"
  let ?wm = "sample_world [''.env'', ''./esbmc''] (Inr (sample_process 1))
               failing_backend [''/help'', ''why?'', ''x'']"
  let ?src = "''int main() {}''"
  let ?p = "sample_process 1"
  let ?out = "unescape (bytes_repr (stdout_bytes ?p))"
  let ?ask = "\<lparr>role = ''user'', content = DEFAULT_PROMPT\<rparr>"
  let ?answer = "\<lparr>role = ''assistant'', content = ''The loop overflows.''\<rparr>"
  let ?why = "\<lparr>role = ''user'', content = ''why?''\<rparr>"
  let ?W = "\<lambda>v k ls. sample_world [''.env'', ''./esbmc''] v k ls"
  have env: "path_exists (?W v k ls) ''.env''" for v k ls
    by (simp add: sample_defs)
  have bin: "path_exists (?W v k ls) (esbmc_path (loaded_config (?W v k ls) sample_args))"
    for v k ls
    by (simp add: sample_defs)
  have src: "read_file (?W v k ls) (filename sample_args) = Inr ?src" for v k ls
    by (simp add: sample_defs)
  have run: "run_process (?W v k ls)
      (esbmc_cmd (loaded_config (?W v k ls) sample_args) (filename sample_args)
         (default_esbmc_params (?W v k ls))) = v" for v k ls
    by (simp add: sample_world_def)
  have code: "returncode ?p = 1"
    by (simp add: sample_process_def)
  have not_why: "DEFAULT_PROMPT \<noteq> ''why?''"
    by (simp add: DEFAULT_PROMPT_def)
  obtain msgs_b where seed_b:
    "snd (build_system_messages ?wb (loaded_config ?wb sample_args) ?src ?out) = Inr msgs_b"
    by (simp add: build_system_messages_def comp_defs)
  obtain msgs_m where seed_m:
    "snd (build_system_messages ?wm (loaded_config ?wm sample_args) ?src ?out) = Inr msgs_m"
    by (simp add: build_system_messages_def comp_defs)
  have send_b: "send_message (chat ?wb)
        (new_chat (chat ?wb) msgs_b (ai_model (loaded_config ?wb sample_args))
           (chat_temperature (loaded_config ?wb sample_args)))
        (if cfg_initial_prompt (loaded_config ?wb sample_args) \<noteq> []
         then cfg_initial_prompt (loaded_config ?wb sample_args) else DEFAULT_PROMPT)
      = (msgs_b @ [?ask], Inl (APIError ''quota''))"
    by (simp add: sample_defs)
  have first_m: "send_message (chat ?wm)
        (new_chat (chat ?wm) msgs_m (ai_model (loaded_config ?wm sample_args))
           (chat_temperature (loaded_config ?wm sample_args)))
        (if cfg_initial_prompt (loaded_config ?wm sample_args) \<noteq> []
         then cfg_initial_prompt (loaded_config ?wm sample_args) else DEFAULT_PROMPT)
      = (msgs_m @ [?ask, ?answer], Inr sample_reply)"
    by (simp add: sample_defs failing_backend_def not_why)
  have lines_m: "stdin ?wm = [''/help''] @ ''why?'' # [''x'']"
    by (simp add: sample_world_def)
  have before_m: "session_after (chat ?wm) (msgs_m @ [?ask, ?answer]) [''/help'']
      = Some (msgs_m @ [?ask, ?answer])"
    by simp
  have line_m: "''why?'' \<noteq> ''/exit''" "''why?'' \<noteq> ''/help''" "''why?'' \<noteq> []"
    by simp_all
  have send_m: "send_message (chat ?wm) (msgs_m @ [?ask, ?answer]) ''why?''
      = (msgs_m @ [?ask, ?answer, ?why], Inl (APIError ''quota''))"
    by (simp add: sample_defs failing_backend_def)
  have v: "snd (main ?wv sample_args) = (Uncaught (OSError ''Exec format error''), None)
      \<and> anim_running False (fst (main ?wv sample_args))"
    using indicator_stopped_unless_call_raises [where w = ?wv and args = sample_args and source_code = ?src
        and e = "OSError ''Exec format error''", unfolded Let_def,
        THEN conjunct2, THEN conjunct2, THEN conjunct1]
      env [of "Inl (OSError ''Exec format error'')"] bin [of "Inl (OSError ''Exec format error'')"]
      src [of "Inl (OSError ''Exec format error'')"] run [of "Inl (OSError ''Exec format error'')"]
    by blast
  have b: "snd (main ?wb sample_args) = (Uncaught (APIError ''quota''), Some (msgs_b @ [?ask]))
      \<and> anim_running False (fst (main ?wb sample_args))"
    using indicator_stopped_unless_call_raises [where w = ?wb and args = sample_args and source_code = ?src and p = ?p
        and msgs = msgs_b and ?c1.0 = "msgs_b @ [?ask]" and e = "APIError ''quota''",
        unfolded Let_def, THEN conjunct2, THEN conjunct2, THEN conjunct2, THEN conjunct1]
      env [of "Inr ?p"] bin [of "Inr ?p"] src [of "Inr ?p"] run [of "Inr ?p"]
      code seed_b send_b
    by blast
  have m: "snd (main ?wm sample_args)
        = (Uncaught (APIError ''quota''), Some (msgs_m @ [?ask, ?answer, ?why]))
      \<and> anim_running False (fst (main ?wm sample_args))
      \<and> last (fst (main ?wm sample_args)) = SendMessage ''why?''"
    using indicator_stopped_unless_call_raises [where w = ?wm and args = sample_args and source_code = ?src and p = ?p
        and msgs = msgs_m and ?c1.0 = "msgs_m @ [?ask, ?answer]" and r = sample_reply
        and before = "[''/help'']" and line = "''why?''" and rest = "[''x'']"
        and ?c2.0 = "msgs_m @ [?ask, ?answer]" and ?c3.0 = "msgs_m @ [?ask, ?answer, ?why]"
        and e = "APIError ''quota''",
        unfolded Let_def, THEN conjunct2, THEN conjunct2, THEN conjunct2, THEN conjunct2,
        THEN conjunct1]
      env [of "Inr ?p"] bin [of "Inr ?p"] src [of "Inr ?p"] run [of "Inr ?p"]
      code seed_m first_m lines_m before_m line_m send_m
    by blast
  from v b m show ?thesis
    by simp
qed

end
